theory Spec2Isabelle
  imports Complex_Main
begin

section \<open>Python values used by the MEXAR backend\<close>

text \<open>
  Python strings are modelled as \<open>string\<close> (lists of 8-bit characters). Case mapping
  and white space follow Python on ASCII text: \<open>str.lower\<close> and \<open>str.upper\<close>
  map the 26 letters, and the white-space characters are the code points 9-13 and 28-32
  (what \<open>str.isspace\<close>, \<open>str.split()\<close>, \<open>str.strip()\<close> and the regular
  expression class \<open>\s\<close> accept below 128). Python floats are modelled as exact
  rationals, so a sum or a quotient is not rounded to 53 bits.
\<close>

definition nl :: string where
  "nl = [CHR 0x0A]"

definition dq :: string where
  "dq = [CHR 0x22]"

definition is_space :: "char \<Rightarrow> bool" where
  "is_space c = (let n = (of_char c :: nat) in (9 \<le> n \<and> n \<le> 13) \<or> (28 \<le> n \<and> n \<le> 32))"

definition lower_char :: "char \<Rightarrow> char" where
  "lower_char c =
     (case map_of (zip ''ABCDEFGHIJKLMNOPQRSTUVWXYZ'' ''abcdefghijklmnopqrstuvwxyz'') c of
        Some d \<Rightarrow> d | None \<Rightarrow> c)"

definition upper_char :: "char \<Rightarrow> char" where
  "upper_char c =
     (case map_of (zip ''abcdefghijklmnopqrstuvwxyz'' ''ABCDEFGHIJKLMNOPQRSTUVWXYZ'') c of
        Some d \<Rightarrow> d | None \<Rightarrow> c)"

definition lower :: "string \<Rightarrow> string" where
  "lower s = map lower_char s"

definition upper :: "string \<Rightarrow> string" where
  "upper s = map upper_char s"

text \<open>\<open>s.startswith(p)\<close> and the substring test \<open>p in s\<close>.\<close>

fun startswith :: "string \<Rightarrow> string \<Rightarrow> bool" where
  "startswith s [] = True"
| "startswith [] (p # ps) = False"
| "startswith (c # cs) (p # ps) = (c = p \<and> startswith cs ps)"

fun contains :: "string \<Rightarrow> string \<Rightarrow> bool" where
  "contains [] p = (p = [])"
| "contains (c # cs) p = (startswith (c # cs) p \<or> contains cs p)"

text \<open>\<open>s.strip()\<close>: white space removed at both ends.\<close>

definition strip :: "string \<Rightarrow> string" where
  "strip s = rev (dropWhile is_space (rev (dropWhile is_space s)))"

text \<open>
  \<open>s.split()\<close>: the maximal runs of characters that are not white space. The first
  argument is the word being read, reversed.
\<close>

fun split_ws_aux :: "string \<Rightarrow> string \<Rightarrow> string list" where
  "split_ws_aux w [] = (if w = [] then [] else [rev w])"
| "split_ws_aux w (c # cs) =
     (if is_space c then (if w = [] then split_ws_aux [] cs else rev w # split_ws_aux [] cs)
      else split_ws_aux (c # w) cs)"

definition split_ws :: "string \<Rightarrow> string list" where
  "split_ws s = split_ws_aux [] s"

text \<open>
  \<open>re.split(r'(?<=[.!?])\s+', text)\<close>: the text is cut at every run of white space
  that directly follows one of \<open>.\<close>, \<open>!\<close>, \<open>?\<close>; the run is dropped. The first
  argument is the piece being read, reversed; the flag says that a separator run is being
  consumed.
\<close>

definition is_sentence_end :: "char \<Rightarrow> bool" where
  "is_sentence_end c = (c = CHR ''.'' \<or> c = CHR ''!'' \<or> c = CHR ''?'')"

fun re_split_aux :: "string \<Rightarrow> bool \<Rightarrow> string \<Rightarrow> string list" where
  "re_split_aux acc skipping [] = [rev acc]"
| "re_split_aux acc True (c # cs) =
     (if is_space c then re_split_aux acc True cs else re_split_aux (c # acc) False cs)"
| "re_split_aux acc False (c # cs) =
     (if is_space c \<and> acc \<noteq> [] \<and> is_sentence_end (hd acc)
      then rev acc # re_split_aux [] True cs
      else re_split_aux (c # acc) False cs)"

definition re_split_sentences :: "string \<Rightarrow> string list" where
  "re_split_sentences s = re_split_aux [] False s"

text \<open>
  \<open>round(x, ndigits)\<close>: to the nearest multiple of \<open>10 ^ (- ndigits)\<close>, a tie going to
  the even one.
\<close>

definition round_half_even :: "rat \<Rightarrow> int" where
  "round_half_even x =
     (let f = floor x; d = x - of_int f
      in if d < 1 / 2 then f else if 1 / 2 < d then f + 1 else if even f then f else f + 1)"

definition py_round :: "rat \<Rightarrow> nat \<Rightarrow> rat" where
  "py_round x ndigits = of_int (round_half_even (x * 10 ^ ndigits)) / 10 ^ ndigits"

text \<open>\<open>sep.join(parts)\<close>.\<close>

fun join :: "string \<Rightarrow> string list \<Rightarrow> string" where
  "join sep [] = []"
| "join sep [p] = p"
| "join sep (p # q # ps) = p @ sep @ join sep (q # ps)"

text \<open>The decimal numeral of a natural number, as an f-string prints it.\<close>

fun str_nat :: "nat \<Rightarrow> string" where
  "str_nat n =
     (if n < 10 then [''0123456789'' ! n]
      else str_nat (n div 10) @ [''0123456789'' ! (n mod 10)])"

declare str_nat.simps [simp del]

subsection \<open>Parsed JSON and the LLM client\<close>

text \<open>
  What \<open>json.loads\<close> returns. \<open>json.loads\<close> itself and the \<open>str\<close> of a value that
  is not a string belong to Python, not to the repository: they are parameters of the
  model (\<open>json_loads\<close> gives \<open>None\<close> for a \<open>JSONDecodeError\<close>).
\<close>

datatype json =
    JNull
  | JBool bool
  | JNum rat
  | JStr string
  | JArr "json list"
  | JObj "(string \<times> json) list"

record py_env =
  json_loads :: "string \<Rightarrow> json option"
  repr_other :: "json \<Rightarrow> string"

definition py_str :: "py_env \<Rightarrow> json \<Rightarrow> string" where
  "py_str py j = (case j of JStr s \<Rightarrow> s | _ \<Rightarrow> repr_other py j)"

text \<open>Truth value of a parsed JSON value (\<open>if c\<close>).\<close>

definition truthy :: "json \<Rightarrow> bool" where
  "truthy j =
     (case j of JNull \<Rightarrow> False | JBool b \<Rightarrow> b | JNum r \<Rightarrow> r \<noteq> 0 | JStr s \<Rightarrow> s \<noteq> []
      | JArr xs \<Rightarrow> xs \<noteq> [] | JObj kvs \<Rightarrow> kvs \<noteq> [])"

text \<open>
  Iterating over a value: the items of an array, the characters of a string, the keys of
  an object; \<open>None\<close> is the \<open>TypeError\<close> of a value that cannot be iterated.
\<close>

definition py_iter :: "json \<Rightarrow> json list option" where
  "py_iter j =
     (case j of JArr xs \<Rightarrow> Some xs
      | JStr s \<Rightarrow> Some (map (\<lambda>c. JStr [c]) s)
      | JObj kvs \<Rightarrow> Some (map (\<lambda>kv. JStr (fst kv)) kvs)
      | _ \<Rightarrow> None)"

text \<open>
  \<open>GroqClient.analyze_with_system_prompt(system_prompt, user_message, model, json_mode)\<close>:
  the provider answers with a string or raises. The client is a parameter; every function
  below that calls it also returns the list of requests it made, in order.
\<close>

record llm_request =
  req_system_prompt :: string
  req_user_message :: string
  req_model :: string
  req_json_mode :: bool

datatype exn = Exn string

type_synonym groq_client = "llm_request \<Rightarrow> exn + string"

section \<open>Faithfulness scoring (utils/faithfulness.py)\<close>

record FaithfulnessResult =
  score :: rat
  total_claims :: nat
  supported_claims :: nat
  unsupported_claims :: "string list"

definition claims_prompt :: "string \<Rightarrow> string" where
  "claims_prompt answer =
     ''Extract individual factual claims from this answer. '' @ nl @
     ''A claim is a specific statement that can be verified as true or false.'' @ nl @
     ''Return ONLY a JSON array of strings, no explanation.'' @ nl @ nl @
     ''Answer: '' @ dq @ take 2000 answer @ dq @ nl @ nl @
     ''Example output: ['' @ dq @ ''Claim 1'' @ dq @ '', '' @ dq @ ''Claim 2'' @ dq @
     '', '' @ dq @ ''Claim 3'' @ dq @ '']''"

definition claims_request :: "string \<Rightarrow> llm_request" where
  "claims_request answer =
     \<lparr> req_system_prompt = ''You extract factual claims. Return only valid JSON array.'',
       req_user_message = claims_prompt answer,
       req_model = ''fast'',
       req_json_mode = True \<rparr>"

definition fallback_extract_claims :: "string \<Rightarrow> string list" where
  "fallback_extract_claims answer =
     take 10 (map strip (filter (\<lambda>s. 20 < length (strip s)) (re_split_sentences answer)))"

definition str_truthy_items :: "py_env \<Rightarrow> json list \<Rightarrow> string list" where
  "str_truthy_items py cs = map (py_str py) (filter truthy cs)"

definition extract_claims :: "groq_client \<Rightarrow> py_env \<Rightarrow> string \<Rightarrow> string list \<times> llm_request list" where
  "extract_claims client py answer =
     (let req = claims_request answer in
      case client req of
        Inl e \<Rightarrow> (fallback_extract_claims answer, [req])
      | Inr response \<Rightarrow>
          (case json_loads py response of
             None \<Rightarrow> (fallback_extract_claims answer, [req])
           | Some (JArr cs) \<Rightarrow> (str_truthy_items py cs, [req])
           | Some (JObj kvs) \<Rightarrow>
               (let found =
                      (case map_of kvs ''claims'' of
                         Some v \<Rightarrow> v
                       | None \<Rightarrow> (case map_of kvs ''statements'' of Some v \<Rightarrow> v | None \<Rightarrow> JArr []))
                in case py_iter found of
                     None \<Rightarrow> (fallback_extract_claims answer, [req])
                   | Some cs \<Rightarrow> (str_truthy_items py cs, [req]))
           | Some _ \<Rightarrow> ([], [req])))"

definition support_prompt :: "string \<Rightarrow> string \<Rightarrow> string" where
  "support_prompt claim context =
     ''Is this claim supported by the context? Answer only YES or NO.'' @ nl @ nl @
     ''Claim: '' @ dq @ claim @ dq @ nl @ nl @
     ''Context (first 4000 chars):'' @ nl @
     dq @ take 4000 context @ dq @ nl @ nl @
     ''Answer YES if the context contains information that supports this claim.'' @ nl @
     ''Answer NO if the claim cannot be verified from the context or contradicts it.''"

definition support_request :: "string \<Rightarrow> string \<Rightarrow> llm_request" where
  "support_request claim context =
     \<lparr> req_system_prompt = ''You verify claims. Answer only YES or NO.'',
       req_user_message = support_prompt claim context,
       req_model = ''fast'',
       req_json_mode = False \<rparr>"

definition is_supported :: "groq_client \<Rightarrow> string \<Rightarrow> string \<Rightarrow> bool \<times> llm_request list" where
  "is_supported client claim context =
     (let req = support_request claim context in
      case client req of
        Inl e \<Rightarrow> (True, [req])
      | Inr response \<Rightarrow> (contains (upper response) ''YES'', [req]))"

text \<open>
  The loop of \<open>score\<close> over the claims: the number of supported claims, the unsupported
  ones in order, and the requests made.
\<close>

fun check_claims ::
  "groq_client \<Rightarrow> string \<Rightarrow> string list \<Rightarrow> nat \<Rightarrow> string list \<Rightarrow> llm_request list
     \<Rightarrow> nat \<times> string list \<times> llm_request list" where
  "check_claims client context [] supported unsupported reqs = (supported, unsupported, reqs)"
| "check_claims client context (claim # claims) supported unsupported reqs =
     (case is_supported client claim context of
        (True, rs) \<Rightarrow> check_claims client context claims (supported + 1) unsupported (reqs @ rs)
      | (False, rs) \<Rightarrow> check_claims client context claims supported (unsupported @ [claim]) (reqs @ rs))"

definition no_claims :: FaithfulnessResult where
  "no_claims = \<lparr> score = 1, total_claims = 0, supported_claims = 0, unsupported_claims = [] \<rparr>"

definition faithfulness_score ::
  "groq_client \<Rightarrow> py_env \<Rightarrow> string \<Rightarrow> string \<Rightarrow> FaithfulnessResult \<times> llm_request list" where
  "faithfulness_score client py answer context =
     (if answer = [] \<or> context = [] then (no_claims, [])
      else
        (case extract_claims client py answer of
           (claims, reqs) \<Rightarrow>
             if claims = [] then (no_claims, reqs)
             else
               (case check_claims client context claims 0 [] reqs of
                  (supported, unsupported, reqs') \<Rightarrow>
                    (\<lparr> score = py_round (of_nat supported / of_nat (length claims)) 3,
                       total_claims = length claims,
                       supported_claims = supported,
                       unsupported_claims = take 5 unsupported \<rparr>, reqs'))))"

section \<open>Source attribution (utils/source_attribution.py)\<close>

text \<open>
  A retrieved chunk is a \<open>DocumentChunk\<close> row: the getters \<open>_get_id\<close>,
  \<open>_get_content\<close> and \<open>_get_source\<close> read its attributes. \<open>_find_best_source\<close>
  returns \<open>None\<close> for an empty chunk list, and the getters applied to \<open>None\<close> give
  0, \<open>str(None)\<close> and \<open>"unknown"\<close>.
\<close>

record DocumentChunk =
  chunk_id :: int
  chunk_agent_id :: int
  chunk_content :: string
  chunk_source :: "string option"

record AttributedSentence =
  sentence_text :: string
  citation :: string
  source_chunk_id :: int
  source_preview :: string
  source_file :: string
  similarity :: rat

record SourceEntry =
  src_citation :: string
  src_chunk_id :: int
  src_source :: string
  src_preview :: string
  src_similarity :: rat

record AttributedAnswer =
  answer_with_citations :: string
  sentences :: "AttributedSentence list"
  sources :: "SourceEntry list"

definition get_content :: "DocumentChunk option \<Rightarrow> string" where
  "get_content c = (case c of Some ch \<Rightarrow> chunk_content ch | None \<Rightarrow> ''None'')"

definition get_id :: "DocumentChunk option \<Rightarrow> int" where
  "get_id c = (case c of Some ch \<Rightarrow> chunk_id ch | None \<Rightarrow> 0)"

definition get_source :: "DocumentChunk option \<Rightarrow> string" where
  "get_source c =
     (case c of
        Some ch \<Rightarrow> (case chunk_source ch of
                      None \<Rightarrow> ''unknown''
                    | Some s \<Rightarrow> if s = [] then ''unknown'' else s)
      | None \<Rightarrow> ''unknown'')"

text \<open>
  The embedding model (\<open>TextEmbedding.embed\<close>) and numpy's \<open>dot\<close> and
  \<open>linalg.norm\<close> are parameters; \<open>None\<close> from \<open>np_dot\<close> is the exception numpy
  raises on vectors that do not fit.
\<close>

record 'v embedder =
  embed :: "string list \<Rightarrow> exn + 'v list"
  np_dot :: "'v \<Rightarrow> 'v \<Rightarrow> rat option"
  np_norm :: "'v \<Rightarrow> rat"

definition cosine_similarity :: "'v embedder \<Rightarrow> 'v \<Rightarrow> 'v \<Rightarrow> rat" where
  "cosine_similarity m a b =
     (case np_dot m a b of
        None \<Rightarrow> 0
      | Some d \<Rightarrow>
          if np_norm m a = 0 \<or> np_norm m b = 0 then 0
          else d / (np_norm m a * np_norm m b))"

definition split_sentences :: "string \<Rightarrow> string list" where
  "split_sentences txt = map strip (filter (\<lambda>s. strip s \<noteq> []) (re_split_sentences txt))"

text \<open>The loop of \<open>_find_best_source\<close> over \<open>zip(chunks, chunk_embeddings)\<close>.\<close>

fun best_match ::
  "'v embedder \<Rightarrow> 'v \<Rightarrow> (DocumentChunk \<times> 'v) list \<Rightarrow> DocumentChunk \<Rightarrow> rat \<Rightarrow> DocumentChunk \<times> rat" where
  "best_match m sentence_emb [] best_chunk best_sim = (best_chunk, best_sim)"
| "best_match m sentence_emb ((chunk, emb) # rest) best_chunk best_sim =
     (let sim = cosine_similarity m sentence_emb emb
      in if best_sim < sim then best_match m sentence_emb rest chunk sim
         else best_match m sentence_emb rest best_chunk best_sim)"

definition find_best_source ::
  "'v embedder option \<Rightarrow> string \<Rightarrow> DocumentChunk list \<Rightarrow> 'v list option
     \<Rightarrow> DocumentChunk option \<times> rat" where
  "find_best_source model sentence chunks chunk_embeddings =
     (case chunks of
        [] \<Rightarrow> (None, 0)
      | c0 # _ \<Rightarrow>
          (case (model, chunk_embeddings) of
             (Some m, Some (e # es)) \<Rightarrow>
               (case embed m [sentence] of
                  Inl err \<Rightarrow> (Some c0, 1 / 2)
                | Inr [] \<Rightarrow> (Some c0, 1 / 2)
                | Inr (sentence_emb # _) \<Rightarrow>
                    (case best_match m sentence_emb (zip chunks (e # es)) c0 0 of
                       (best_chunk, best_sim) \<Rightarrow> (Some best_chunk, best_sim)))
           | _ \<Rightarrow> (Some c0, 1 / 2)))"

definition cite :: "nat \<Rightarrow> string" where
  "cite n = ''['' @ str_nat n @ '']''"

text \<open>
  The loop of \<open>attribute\<close> over the sentences. \<open>sources_used\<close> is the dictionary
  from chunk id to citation number, in insertion order.
\<close>

fun attribute_loop ::
  "'v embedder option \<Rightarrow> DocumentChunk list \<Rightarrow> 'v list option \<Rightarrow> string list
     \<Rightarrow> (int \<times> nat) list \<Rightarrow> AttributedSentence list
     \<Rightarrow> (int \<times> nat) list \<times> AttributedSentence list" where
  "attribute_loop model chunks embs [] sources_used attributed = (sources_used, attributed)"
| "attribute_loop model chunks embs (sentence # rest) sources_used attributed =
     (if length (split_ws sentence) < 4
      then attribute_loop model chunks embs rest sources_used attributed
      else
        (case find_best_source model sentence chunks embs of
           (best_chunk, sim) \<Rightarrow>
             (let cid = get_id best_chunk;
                  (used, citation_num) =
                    (case map_of sources_used cid of
                       None \<Rightarrow> (sources_used @ [(cid, length sources_used + 1)],
                                 length sources_used + 1)
                     | Some n \<Rightarrow> (sources_used, n))
              in attribute_loop model chunks embs rest used
                   (attributed @
                    [\<lparr> sentence_text = sentence,
                       citation = cite citation_num,
                       source_chunk_id = cid,
                       source_preview = take 150 (get_content best_chunk),
                       source_file = get_source best_chunk,
                       similarity = sim \<rparr>]))))"

text \<open>\<open>result.replace(old, new, 1)\<close>: the leftmost occurrence of \<open>old\<close> is replaced.\<close>

fun replace_first :: "string \<Rightarrow> string \<Rightarrow> string \<Rightarrow> string" where
  "replace_first old new [] = (if old = [] then new else [])"
| "replace_first old new (c # cs) =
     (if startswith (c # cs) old then new @ drop (length old) (c # cs)
      else c # replace_first old new cs)"

definition insert_citation :: "AttributedSentence \<Rightarrow> string \<Rightarrow> string" where
  "insert_citation attr result =
     (if contains result (sentence_text attr)
      then replace_first (sentence_text attr) (sentence_text attr @ '' '' @ citation attr) result
      else result)"

definition build_cited_answer :: "string \<Rightarrow> AttributedSentence list \<Rightarrow> string" where
  "build_cited_answer answer attributed = foldl (\<lambda>r a. insert_citation a r) answer (rev attributed)"

definition source_entries :: "(int \<times> nat) list \<Rightarrow> AttributedSentence list \<Rightarrow> SourceEntry list" where
  "source_entries sources_used attributed =
     concat (map (\<lambda>(cid, num).
                    case find (\<lambda>a. source_chunk_id a = cid) attributed of
                      None \<Rightarrow> []
                    | Some attr \<Rightarrow>
                        [\<lparr> src_citation = cite num,
                           src_chunk_id = cid,
                           src_source = source_file attr,
                           src_preview = source_preview attr,
                           src_similarity = py_round (similarity attr) 3 \<rparr>])
                 (sort_key snd sources_used))"

text \<open>
  \<open>attribute\<close> raises when it has to embed the chunks itself and the model raises;
  the per-sentence embedding failures are caught inside \<open>_find_best_source\<close>.
\<close>

definition attribute ::
  "'v embedder option \<Rightarrow> string \<Rightarrow> DocumentChunk list \<Rightarrow> 'v list option
     \<Rightarrow> exn + AttributedAnswer" where
  "attribute model answer chunks chunk_embeddings =
     (if answer = [] \<or> chunks = []
      then Inr \<lparr> answer_with_citations = answer, sentences = [], sources = [] \<rparr>
      else
        (case (case (chunk_embeddings, model) of
                 (None, Some m) \<Rightarrow>
                   (case embed m (map (\<lambda>c. get_content (Some c)) chunks) of
                      Inl e \<Rightarrow> Inl e
                    | Inr es \<Rightarrow> Inr (Some es))
               | _ \<Rightarrow> Inr chunk_embeddings) of
           Inl e \<Rightarrow> Inl e
         | Inr embs \<Rightarrow>
             (case attribute_loop model chunks embs (split_sentences answer) [] [] of
                (sources_used, attributed) \<Rightarrow>
                  Inr \<lparr> answer_with_citations = build_cited_answer answer attributed,
                        sentences = attributed,
                        sources = source_entries sources_used attributed \<rparr>)))"

section \<open>Reranking (utils/reranker.py)\<close>

text \<open>
  A Python slice \<open>xs[:k]\<close>: a negative \<open>k\<close> counts from the end.
\<close>

definition py_take :: "int \<Rightarrow> 'a list \<Rightarrow> 'a list" where
  "py_take k xs = (if 0 \<le> k then take (nat k) xs else take (nat (int (length xs) + k)) xs)"

text \<open>
  The cross-encoder (\<open>CrossEncoder.predict\<close>) is a parameter; \<open>None\<close> is the model
  that could not be loaded. \<open>sorted(..., reverse=True)\<close> is stable: elements with equal
  scores keep their order.
\<close>

type_synonym cross_encoder = "(string \<times> string) list \<Rightarrow> exn + rat list"

definition placeholder_scores :: "DocumentChunk list \<Rightarrow> int \<Rightarrow> (DocumentChunk \<times> rat) list" where
  "placeholder_scores chunks top_k = map (\<lambda>chunk. (chunk, 1 / 2)) (py_take top_k chunks)"

definition sorted_desc :: "('a \<times> rat) list \<Rightarrow> ('a \<times> rat) list" where
  "sorted_desc xs = rev (sort_key snd (rev xs))"

definition rerank ::
  "cross_encoder option \<Rightarrow> string \<Rightarrow> DocumentChunk list \<Rightarrow> int \<Rightarrow> (DocumentChunk \<times> rat) list" where
  "rerank model query chunks top_k =
     (if chunks = [] then []
      else
        (case model of
           None \<Rightarrow> placeholder_scores chunks top_k
         | Some predict \<Rightarrow>
             (case predict (map (\<lambda>chunk. (query, take 512 (get_content (Some chunk)))) chunks) of
                Inl e \<Rightarrow> placeholder_scores chunks top_k
              | Inr scores \<Rightarrow> py_take top_k (sorted_desc (zip chunks scores)))))"

section \<open>Hybrid search (utils/hybrid_search.py)\<close>

text \<open>
  The database is a parameter: the \<open>hybrid_search\<close> SQL function (rows of chunk id and
  RRF score), the query for the chunks with given ids, and the query for the chunks of an
  agent nearest to an embedding. Each may raise.
\<close>

record 'v search_db =
  rpc_hybrid_search :: "'v \<Rightarrow> string \<Rightarrow> int \<Rightarrow> int \<Rightarrow> exn + (int \<times> rat) list"
  chunks_by_ids :: "int list \<Rightarrow> exn + DocumentChunk list"
  nearest_chunks :: "'v \<Rightarrow> int \<Rightarrow> int \<Rightarrow> exn + DocumentChunk list"

definition embed_one :: "'v embedder \<Rightarrow> string \<Rightarrow> exn + 'v" where
  "embed_one m s =
     (case embed m [s] of
        Inl e \<Rightarrow> Inl e
      | Inr [] \<Rightarrow> Inl (Exn ''list index out of range'')
      | Inr (v # _) \<Rightarrow> Inr v)"

definition semantic_only_search ::
  "'v search_db \<Rightarrow> 'v \<Rightarrow> int \<Rightarrow> int \<Rightarrow> (DocumentChunk \<times> rat) list" where
  "semantic_only_search db query_embedding agent_id top_k =
     (case nearest_chunks db query_embedding agent_id top_k of
        Inl e \<Rightarrow> []
      | Inr chunks \<Rightarrow>
          map (\<lambda>(i, chunk). (chunk, 1 / (1 + of_nat i * (1 / 10)))) (enumerate 0 chunks))"

definition fallback_semantic_search ::
  "'v embedder \<Rightarrow> 'v search_db \<Rightarrow> string \<Rightarrow> int \<Rightarrow> int \<Rightarrow> (DocumentChunk \<times> rat) list" where
  "fallback_semantic_search m db query agent_id top_k =
     (case embed_one m query of
        Inl e \<Rightarrow> []
      | Inr query_embedding \<Rightarrow> semantic_only_search db query_embedding agent_id top_k)"

definition search ::
  "'v embedder \<Rightarrow> 'v search_db \<Rightarrow> string \<Rightarrow> int \<Rightarrow> int \<Rightarrow> (DocumentChunk \<times> rat) list" where
  "search m db query agent_id top_k =
     (if strip query = [] then []
      else
        (case embed_one m query of
           Inl e \<Rightarrow> fallback_semantic_search m db query agent_id top_k
         | Inr query_embedding \<Rightarrow>
             (case rpc_hybrid_search db query_embedding query agent_id top_k of
                Inl e \<Rightarrow> fallback_semantic_search m db query agent_id top_k
              | Inr rows \<Rightarrow>
                  if rows = [] then semantic_only_search db query_embedding agent_id top_k
                  else
                    (case chunks_by_ids db (map fst rows) of
                       Inl e \<Rightarrow> fallback_semantic_search m db query agent_id top_k
                     | Inr chunks \<Rightarrow>
                         (let chunk_map = map_of (rev (map (\<lambda>c. (chunk_id c, c)) chunks))
                          in concat (map (\<lambda>(row_id, rrf_score).
                                            case chunk_map row_id of
                                              None \<Rightarrow> []
                                            | Some c \<Rightarrow> [(c, rrf_score)]) rows))))))"

section \<open>The reasoning engine (modules/reasoning_engine.py)\<close>

text \<open>
  The prompt analysis stored with an agent is a dictionary; a key may be missing. The
  engine reads \<open>domain\<close>, \<open>sub_domains\<close> and \<open>domain_keywords\<close>; the other keys are
  written by the prompt analyzer.
\<close>

record PromptAnalysis =
  pa_domain :: "string option"
  pa_sub_domains :: "string list option"
  pa_personality :: "string option"
  pa_constraints :: "string list option"
  pa_suggested_name :: "string option"
  pa_domain_keywords :: "string list option"
  pa_tone :: "string option"
  pa_capabilities :: "string list option"

definition empty_analysis :: PromptAnalysis where
  "empty_analysis =
     \<lparr> pa_domain = None, pa_sub_domains = None, pa_personality = None, pa_constraints = None,
       pa_suggested_name = None, pa_domain_keywords = None, pa_tone = None,
       pa_capabilities = None \<rparr>"

definition get_or :: "'a option \<Rightarrow> 'a \<Rightarrow> 'a" where
  "get_or v d = (case v of None \<Rightarrow> d | Some x \<Rightarrow> x)"

text \<open>
  \<open>difflib.SequenceMatcher(None, s1, s2).ratio()\<close> and the format \<open>{x:.0f}\<close> belong
  to Python and are parameters.
\<close>

record py_fmt =
  seq_ratio :: "string \<Rightarrow> string \<Rightarrow> rat"
  format_0f :: "rat \<Rightarrow> string"

text \<open>
  The inner loop of \<open>_check_guardrail\<close> for one query word over the signature keywords:
  what the word adds to \<open>matches\<close>.
\<close>

fun word_matches :: "py_fmt \<Rightarrow> string \<Rightarrow> string list \<Rightarrow> rat" where
  "word_matches py word [] = 0"
| "word_matches py word (kw # kws) =
     (if 3 / 4 < seq_ratio py word kw then 1
      else if contains kw word \<or> contains word kw then 1 / 2
      else word_matches py word kws)"

definition count_matches :: "py_fmt \<Rightarrow> string list \<Rightarrow> string list \<Rightarrow> rat" where
  "count_matches py query_words signature_lower =
     sum_list (map (\<lambda>word. if length word < 3 then 0
                            else word_matches py word (take 100 signature_lower)) query_words)"

definition bonus_of :: "string \<Rightarrow> PromptAnalysis \<Rightarrow> rat" where
  "bonus_of query_lower prompt_analysis =
     (if contains query_lower (lower (get_or (pa_domain prompt_analysis) [])) then 3 else 0)
     + sum_list (map (\<lambda>sub_domain. if contains query_lower (lower sub_domain) then 2 else 0)
                   (get_or (pa_sub_domains prompt_analysis) []))
     + sum_list (map (\<lambda>keyword. if contains query_lower (lower keyword) then 3 / 2 else 0)
                   (get_or (pa_domain_keywords prompt_analysis) []))"

definition DOMAIN_SIMILARITY_THRESHOLD :: rat where
  "DOMAIN_SIMILARITY_THRESHOLD = 5 / 100"

definition check_guardrail ::
  "py_fmt \<Rightarrow> string \<Rightarrow> string list \<Rightarrow> PromptAnalysis \<Rightarrow> bool \<times> rat" where
  "check_guardrail py query domain_signature prompt_analysis =
     (let query_lower = lower query;
          query_words = remdups (split_ws query_lower);
          bonus_matches = bonus_of query_lower prompt_analysis;
          signature_lower = map lower domain_signature;
          matches = count_matches py query_words signature_lower;
          max_possible = max 1 (min (length query_words) 10);
          base_score = matches / of_nat max_possible;
          bonus_score = min (1 / 2) (bonus_matches * (1 / 10));
          score0 = min 1 (base_score + bonus_score);
          score1 = (if 1 \<le> bonus_matches then max score0 (2 / 10) else score0)
      in (DOMAIN_SIMILARITY_THRESHOLD \<le> score1, score1))"

definition norm_rerank :: "rat \<Rightarrow> rat" where
  "norm_rerank rerank_score = min 1 (max 0 ((rerank_score + 10) / 20))"

definition norm_similarity :: "rat \<Rightarrow> rat" where
  "norm_similarity top_similarity = min 1 (top_similarity * 30)"

definition calculate_confidence :: "rat \<Rightarrow> rat \<Rightarrow> rat \<Rightarrow> rat" where
  "calculate_confidence top_similarity rerank_score faithfulness =
     (let nr = norm_rerank rerank_score;
          ns = norm_similarity top_similarity;
          c0 = ns * (35 / 100) + nr * (30 / 100) + faithfulness * (25 / 100) + 10 / 100;
          c1 = (if 7 / 10 < ns \<and> 8 / 10 < faithfulness then max c0 (75 / 100)
                else if ns < 3 / 10 then min c0 (45 / 100)
                else c0)
      in py_round (min (95 / 100) (max (15 / 100) c1)) 2)"

text \<open>\<open>str.title()\<close> on ASCII text.\<close>

definition is_alpha :: "char \<Rightarrow> bool" where
  "is_alpha c = (lower_char c \<noteq> c \<or> upper_char c \<noteq> c)"

fun title_aux :: "bool \<Rightarrow> string \<Rightarrow> string" where
  "title_aux prev_cased [] = []"
| "title_aux prev_cased (c # cs) =
     (if is_alpha c
      then (if prev_cased then lower_char c else upper_char c) # title_aux True cs
      else c # title_aux False cs)"

definition title :: "string \<Rightarrow> string" where
  "title s = title_aux False s"

text \<open>
  A row of the \<open>agents\<close> table (models/agent.py is not part of the sources read here;
  the columns are the ones the engine, the compiler and the worker use), and the
  dictionary \<open>_load_agent\<close> builds from it.
\<close>

record Agent =
  agent_id :: int
  agent_name :: string
  agent_system_prompt :: string
  agent_storage_path :: string
  agent_status :: string
  agent_domain :: "string option"
  agent_domain_keywords :: "string list"
  agent_domain_signature :: "string list option"
  agent_prompt_analysis :: "PromptAnalysis option"
  agent_chunk_count :: "nat option"
  agent_entity_count :: nat

record agent_data =
  ad_id :: int
  ad_name :: string
  ad_system_prompt :: string
  ad_domain :: "string option"
  ad_domain_signature :: "string list"
  ad_prompt_analysis :: PromptAnalysis
  ad_chunk_count :: nat

text \<open>
  The engine: the LLM client, the embedding model (\<open>None\<close> when it failed to load), the
  cross-encoder, the database and the agents table. The agent cache is the state the
  engine threads through its calls. The \<open>knowledge_graph\<close> entry of the agent
  dictionary and the \<open>explainability\<close>, \<open>reasoning_paths\<close> and \<open>entities_found\<close>
  entries of a response are not modelled.
\<close>

record 'v engine =
  eng_client :: groq_client
  eng_py :: py_env
  eng_fmt :: py_fmt
  eng_embedding_model :: "'v embedder option"
  eng_cross_encoder :: "cross_encoder option"
  eng_search_db :: "'v search_db"
  eng_agents :: "Agent list"

type_synonym agent_cache = "string \<Rightarrow> agent_data option"

record response =
  resp_answer :: string
  resp_confidence :: rat
  resp_in_domain :: bool

definition load_agent :: "'v engine \<Rightarrow> agent_cache \<Rightarrow> string \<Rightarrow> (exn + agent_data) \<times> agent_cache" where
  "load_agent eng cache name =
     (case cache name of
        Some d \<Rightarrow> (Inr d, cache)
      | None \<Rightarrow>
          (case find (\<lambda>a. agent_name a = name) (eng_agents eng) of
             None \<Rightarrow> (Inl (Exn (''Agent '' @ [CHR 0x27] @ name @ [CHR 0x27] @ '' not found'')), cache)
           | Some a \<Rightarrow>
               (let d = \<lparr> ad_id = agent_id a,
                          ad_name = agent_name a,
                          ad_system_prompt = agent_system_prompt a,
                          ad_domain = agent_domain a,
                          ad_domain_signature = get_or (agent_domain_signature a) [],
                          ad_prompt_analysis = get_or (agent_prompt_analysis a) empty_analysis,
                          ad_chunk_count = get_or (agent_chunk_count a) 0 \<rparr>
                in (Inr d, cache(name \<mapsto> d)))))"

definition multimodal_section :: "string \<Rightarrow> string" where
  "multimodal_section multimodal_context =
     (if multimodal_context = [] then []
      else nl @ nl @ ''MULTIMODAL INPUT (User uploaded media):'' @ nl @
           multimodal_context @ nl @ nl @
           ''IMPORTANT: When the user asks about images, audio, or other uploaded media, '' @ nl @
           ''use the descriptions above to answer their questions. The multimodal input '' @ nl @
           ''contains AI-generated descriptions of what the user has uploaded.'')"

definition full_system_prompt :: "string \<Rightarrow> string \<Rightarrow> string \<Rightarrow> string" where
  "full_system_prompt system_prompt context multimodal_context =
     system_prompt @ nl @ nl @
     ''RETRIEVED KNOWLEDGE BASE CONTEXT:'' @ nl @
     take 80000 context @ nl @
     multimodal_section multimodal_context @ nl @ nl @
     ''IMPORTANT INSTRUCTIONS:'' @ nl @
     ''1. Answer using the retrieved context AND any multimodal input provided'' @ nl @
     ''2. If the user asks about uploaded images/audio, use the MULTIMODAL INPUT section'' @ nl @
     ''3. If asking about knowledge base topics, use the RETRIEVED CONTEXT'' @ nl @
     ''4. If information is not available in any source, say '' @ dq @
     ''I don'' @ [CHR 0x27] @ ''t have information about that'' @ dq @ nl @
     ''5. Be specific and cite sources when possible'' @ nl @
     ''6. Be concise but comprehensive'' @ nl @
     ''7. If you quote directly, use quotation marks'' @ nl"

definition generate_answer :: "groq_client \<Rightarrow> string \<Rightarrow> string \<Rightarrow> string \<Rightarrow> string \<Rightarrow> string" where
  "generate_answer client query context system_prompt multimodal_context =
     (case client \<lparr> req_system_prompt = full_system_prompt system_prompt context multimodal_context,
                    req_user_message = query,
                    req_model = ''chat'',
                    req_json_mode = False \<rparr> of
        Inr reply \<Rightarrow> reply
      | Inl e \<Rightarrow> ''I apologize, but I encountered an error processing your query. Please try again.'')"

definition create_out_of_domain_response :: "py_fmt \<Rightarrow> string \<Rightarrow> string \<Rightarrow> rat \<Rightarrow> response" where
  "create_out_of_domain_response py query domain_name domain_score =
     \<lparr> resp_answer =
         ''I apologize, but your question appears to be outside my area of expertise.'' @ nl @ nl @
         ''I am a specialized **'' @ title domain_name @
         ''** assistant and can only answer questions related to that domain based on my knowledge base.'' @
         nl @ nl @
         ''Your query doesn'' @ [CHR 0x27] @
         ''t seem to match the topics I'' @ [CHR 0x27] @ ''m trained on (relevance score: '' @
         format_0f py (domain_score * 100) @ ''%).'' @ nl @ nl @
         ''**How I can help:**'' @ nl @
         ''- Ask questions related to '' @ domain_name @ nl @
         ''- Query information from my knowledge base'' @ nl @
         ''- Get explanations about '' @ domain_name @ ''-related topics'' @ nl @ nl @
         ''Would you like to rephrase your question to focus on '' @ domain_name @ ''?'',
       resp_confidence = 1 / 10,
       resp_in_domain = False \<rparr>"

definition create_no_results_response :: "string \<Rightarrow> agent_data \<Rightarrow> response" where
  "create_no_results_response query agent =
     \<lparr> resp_answer =
         ''I couldn'' @ [CHR 0x27] @
         ''t find relevant information in my knowledge base to answer your question.'' @ nl @ nl @
         ''This could mean:'' @ nl @
         ''- The topic isn'' @ [CHR 0x27] @ ''t covered in my training data'' @ nl @
         ''- Try rephrasing your question with different keywords'' @ nl @
         ''- Ask about a more specific aspect of '' @ get_or (ad_domain agent) ''None'',
       resp_confidence = 2 / 10,
       resp_in_domain = True \<rparr>"

text \<open>
  Steps 3 to 7 of \<open>reason\<close>, once the search has returned results: rerank, generate,
  attribute, score the faithfulness, compute the confidence. \<open>first_or_zero\<close> is
  \<open>xs[0] if xs else 0\<close>.
\<close>

definition first_or_zero :: "rat list \<Rightarrow> rat" where
  "first_or_zero xs = (case xs of [] \<Rightarrow> 0 | s # _ \<Rightarrow> s)"

definition build_context :: "DocumentChunk list \<Rightarrow> string" where
  "build_context top_chunks = join (nl @ nl @ ''---'' @ nl @ nl) (map chunk_content top_chunks)"

definition embed_chunks :: "'v embedder option \<Rightarrow> DocumentChunk list \<Rightarrow> 'v list option" where
  "embed_chunks model top_chunks =
     (case model of
        None \<Rightarrow> None
      | Some m \<Rightarrow> (case embed m (map chunk_content top_chunks) of
                    Inl e \<Rightarrow> None
                  | Inr es \<Rightarrow> Some es))"

definition answer_from_results ::
  "'v engine \<Rightarrow> agent_data \<Rightarrow> string \<Rightarrow> string \<Rightarrow> string \<Rightarrow> (DocumentChunk \<times> rat) list
     \<Rightarrow> exn + response" where
  "answer_from_results eng agent query multimodal_context full_query search_results =
     (let chunks = map fst search_results;
          rrf_scores = map snd search_results;
          reranked = rerank (eng_cross_encoder eng) full_query chunks 5;
          top_chunks = map fst reranked;
          rerank_scores = map snd reranked;
          context = build_context top_chunks;
          reply = generate_answer (eng_client eng) query context (ad_system_prompt agent)
                    multimodal_context;
          chunk_embeddings = embed_chunks (eng_embedding_model eng) top_chunks
      in case attribute (eng_embedding_model eng) reply top_chunks chunk_embeddings of
           Inl e \<Rightarrow> Inl e
         | Inr attribution \<Rightarrow>
             (let faithfulness_result =
                    fst (faithfulness_score (eng_client eng) (eng_py eng) reply context);
                  top_similarity = first_or_zero rrf_scores;
                  top_rerank = first_or_zero rerank_scores
              in Inr \<lparr> resp_answer = answer_with_citations attribution,
                       resp_confidence =
                         calculate_confidence top_similarity top_rerank (score faithfulness_result),
                       resp_in_domain = True \<rparr>))"

definition full_query_of :: "string \<Rightarrow> string \<Rightarrow> string" where
  "full_query_of query multimodal_context =
     (if multimodal_context = [] then query
      else query @ nl @ nl @ ''[ADDITIONAL CONTEXT]'' @ nl @ multimodal_context)"

definition retrieve :: "'v engine \<Rightarrow> agent_data \<Rightarrow> string \<Rightarrow> (DocumentChunk \<times> rat) list" where
  "retrieve eng agent full_query =
     (case eng_embedding_model eng of
        None \<Rightarrow> []
      | Some m \<Rightarrow> search m (eng_search_db eng) full_query (ad_id agent) 20)"

definition reason ::
  "'v engine \<Rightarrow> agent_cache \<Rightarrow> string \<Rightarrow> string \<Rightarrow> string \<Rightarrow> (exn + response) \<times> agent_cache" where
  "reason eng cache name query multimodal_context =
     (case load_agent eng cache name of
        (Inl e, cache') \<Rightarrow> (Inl e, cache')
      | (Inr agent, cache') \<Rightarrow>
          (let full_query = full_query_of query multimodal_context
           in case check_guardrail (eng_fmt eng) full_query (ad_domain_signature agent)
                     (ad_prompt_analysis agent) of
                (in_dom, domain_score) \<Rightarrow>
                  if \<not> in_dom
                  then (Inr (create_out_of_domain_response (eng_fmt eng) query
                               (get_or (pa_domain (ad_prompt_analysis agent)) ''unknown'')
                               domain_score), cache')
                  else
                    (let search_results = retrieve eng agent full_query
                     in if search_results = []
                        then (Inr (create_no_results_response query agent), cache')
                        else (answer_from_results eng agent query multimodal_context full_query
                                search_results, cache'))))"

section \<open>Data validation (modules/data_validator.py)\<close>

text \<open>
  A parsed file as \<open>parse_file\<close> builds it. \<open>validate_sufficiency\<close> reads
  \<open>entries_count\<close> and \<open>text\<close> with a default, so these may be missing; the key
  \<open>error\<close> is present when parsing raised; \<open>data\<close> is \<open>None\<close> for unstructured
  files.
\<close>

record ParsedSource =
  ps_file_name :: string
  ps_format :: string
  ps_data :: "json list option"
  ps_text :: "string option"
  ps_entries_count :: "nat option"
  ps_error :: "string option"

record FileBreakdown =
  fb_name :: string
  fb_format :: string
  fb_entries :: nat
  fb_characters :: nat

record ValidationStats =
  total_files :: nat
  total_entries :: nat
  total_characters :: nat
  structure_score :: rat
  file_breakdown :: "FileBreakdown list"

record ValidationReport =
  sufficient :: bool
  issues :: "string list"
  warnings :: "string list"
  stats :: ValidationStats

definition MIN_ENTRIES :: nat where
  "MIN_ENTRIES = 20"

definition MIN_CHARACTERS :: nat where
  "MIN_CHARACTERS = 2000"

definition entries_of :: "ParsedSource \<Rightarrow> nat" where
  "entries_of p = get_or (ps_entries_count p) 0"

definition characters_of :: "ParsedSource \<Rightarrow> nat" where
  "characters_of p = length (get_or (ps_text p) [])"

definition validate_sufficiency :: "ParsedSource list \<Rightarrow> ValidationReport" where
  "validate_sufficiency parsed_data =
     (let n_entries = sum_list (map entries_of parsed_data);
          n_chars = sum_list (map characters_of parsed_data);
          entries_ok = (MIN_ENTRIES \<le> n_entries);
          chars_ok = (MIN_CHARACTERS \<le> n_chars);
          issues1 =
            (if \<not> entries_ok \<and> \<not> chars_ok
             then [''Insufficient data: Found '' @ str_nat n_entries @ '' entries and '' @
                   str_nat n_chars @ '' characters. '' @ ''Need at least '' @
                   str_nat MIN_ENTRIES @ '' entries OR '' @ str_nat MIN_CHARACTERS @
                   '' characters.'']
             else []);
          empty_files = map ps_file_name (filter (\<lambda>p. entries_of p = 0) parsed_data);
          issues2 =
            (if empty_files \<noteq> []
             then issues1 @ [''Empty or unreadable files: '' @ join '', '' empty_files]
             else issues1);
          error_files = map ps_file_name (filter (\<lambda>p. ps_error p \<noteq> None) parsed_data);
          issues3 =
            (if error_files \<noteq> []
             then issues2 @ [''Files with parsing errors: '' @ join '', '' error_files]
             else issues2);
          warnings1 =
            (if n_entries < MIN_ENTRIES * 2
             then [''Consider adding more entries for better knowledge coverage. '' @
                   ''Current: '' @ str_nat n_entries @ '', Recommended: '' @
                   str_nat (MIN_ENTRIES * 2) @ ''+'']
             else []);
          structured_count = length (filter (\<lambda>p. ps_data p \<noteq> None) parsed_data);
          sscore =
            (if parsed_data \<noteq> [] then of_nat structured_count / of_nat (length parsed_data)
             else 0);
          warnings2 =
            (if sscore < 1 / 2
             then warnings1 @ [''Most files are unstructured (PDF/TXT). '' @
                   ''Structured data (CSV/JSON) provides better knowledge extraction.'']
             else warnings1)
      in \<lparr> sufficient = (length issues3 = 0),
           issues = issues3,
           warnings = warnings2,
           stats = \<lparr> total_files = length parsed_data,
                     total_entries = n_entries,
                     total_characters = n_chars,
                     structure_score = py_round sscore 2,
                     file_breakdown =
                       map (\<lambda>p. \<lparr> fb_name = ps_file_name p, fb_format = ps_format p,
                                    fb_entries = entries_of p,
                                    fb_characters = characters_of p \<rparr>) parsed_data \<rparr> \<rparr>)"

section \<open>Prompt analysis (modules/prompt_analyzer.py)\<close>

definition analysis_prompt :: "string \<Rightarrow> string" where
  "analysis_prompt system_prompt =
     ''You are a prompt analysis expert. Analyze the following system prompt '' @
     ''and extract structured metadata.'' @ nl @ nl @
     ''SYSTEM PROMPT TO ANALYZE:'' @ nl @
     dq @ dq @ dq @ nl @
     system_prompt @ nl @
     dq @ dq @ dq @ nl @ nl @
     ''Respond with a JSON object containing:'' @ nl @
     ''{'' @ nl @
     ''    '' @ dq @ ''domain'' @ dq @ '': '' @ dq @
     ''primary domain (e.g., medical, legal, cooking, technology, finance, education)'' @ dq @
     '','' @ nl @
     ''    '' @ dq @ ''sub_domains'' @ dq @ '': ['' @ dq @ ''list'' @ dq @ '', '' @ dq @ ''of'' @
     dq @ '', '' @ dq @ ''related'' @ dq @ '', '' @ dq @ ''sub-domains'' @ dq @ ''],'' @ nl @
     ''    '' @ dq @ ''personality'' @ dq @ '': '' @ dq @
     ''brief personality description (e.g., friendly, professional, empathetic)'' @ dq @ '','' @
     nl @
     ''    '' @ dq @ ''constraints'' @ dq @ '': ['' @ dq @ ''list'' @ dq @ '', '' @ dq @ ''of'' @
     dq @ '', '' @ dq @ ''behavioral'' @ dq @ '', '' @ dq @ ''constraints'' @ dq @ ''],'' @ nl @
     ''    '' @ dq @ ''suggested_name'' @ dq @ '': '' @ dq @
     ''creative agent name based on domain and personality'' @ dq @ '','' @ nl @
     ''    '' @ dq @ ''domain_keywords'' @ dq @ '': ['' @ dq @ ''20'' @ dq @ '', '' @ dq @
     ''keywords'' @ dq @ '', '' @ dq @ ''that'' @ dq @ '', '' @ dq @ ''define'' @ dq @ '', '' @
     dq @ ''this'' @ dq @ '', '' @ dq @ ''domain'' @ dq @ ''],'' @ nl @
     ''    '' @ dq @ ''tone'' @ dq @ '': '' @ dq @
     ''communication tone (formal/casual/empathetic/technical)'' @ dq @ '','' @ nl @
     ''    '' @ dq @ ''capabilities'' @ dq @ '': ['' @ dq @ ''list'' @ dq @ '', '' @ dq @ ''of'' @
     dq @ '', '' @ dq @ ''what'' @ dq @ '', '' @ dq @ ''agent'' @ dq @ '', '' @ dq @ ''can'' @ dq @
     '', '' @ dq @ ''do'' @ dq @ '']'' @ nl @
     ''}'' @ nl @ nl @
     ''Be thorough with domain_keywords - these are crucial for query filtering.'' @ nl @
     ''Make the suggested_name memorable and relevant.'' @ nl"

definition analysis_request :: "string \<Rightarrow> llm_request" where
  "analysis_request system_prompt =
     \<lparr> req_system_prompt =
         ''You are a JSON extraction assistant. Return only valid JSON, no markdown or explanation.'',
       req_user_message = analysis_prompt system_prompt,
       req_model = ''chat'',
       req_json_mode = True \<rparr>"

definition domain_defaults :: "(string \<times> string list) list" where
  "domain_defaults =
     [(''medical'',
       [''health'', ''patient'', ''doctor'', ''treatment'', ''diagnosis'', ''symptoms'',
        ''medicine'', ''hospital'', ''disease'', ''therapy'', ''prescription'', ''clinic'',
        ''medical'', ''healthcare'', ''wellness'', ''condition'', ''care'', ''physician'',
        ''nurse'', ''medication'']),
      (''legal'',
       [''law'', ''court'', ''legal'', ''attorney'', ''lawyer'', ''case'', ''contract'',
        ''rights'', ''litigation'', ''judge'', ''verdict'', ''lawsuit'', ''compliance'',
        ''regulation'', ''statute'', ''defendant'', ''plaintiff'', ''trial'', ''evidence'',
        ''testimony'']),
      (''cooking'',
       [''recipe'', ''cook'', ''ingredient'', ''food'', ''kitchen'', ''meal'', ''dish'',
        ''flavor'', ''cuisine'', ''bake'', ''chef'', ''cooking'', ''taste'', ''serve'',
        ''prepare'', ''dinner'', ''lunch'', ''breakfast'', ''snack'', ''dessert'']),
      (''technology'',
       [''software'', ''code'', ''programming'', ''computer'', ''system'', ''data'',
        ''network'', ''security'', ''cloud'', ''application'', ''development'',
        ''algorithm'', ''database'', ''API'', ''server'', ''hardware'', ''digital'',
        ''technology'', ''tech'', ''IT'']),
      (''finance'',
       [''money'', ''investment'', ''bank'', ''finance'', ''budget'', ''tax'', ''stock'',
        ''credit'', ''loan'', ''savings'', ''financial'', ''accounting'', ''capital'',
        ''asset'', ''portfolio'', ''market'', ''trading'', ''insurance'', ''wealth'',
        ''income''])]"

text \<open>The loop of \<open>_expand_keywords\<close> over the defaults of the domain.\<close>

fun add_defaults :: "string list \<Rightarrow> string list \<Rightarrow> string list" where
  "add_defaults keywords [] = keywords"
| "add_defaults keywords (kw # kws) =
     (if kw \<notin> set keywords \<and> length keywords < 20 then add_defaults (keywords @ [kw]) kws
      else add_defaults keywords kws)"

definition expand_keywords :: "string list \<Rightarrow> string \<Rightarrow> string list" where
  "expand_keywords existing domain_name =
     (let keywords1 =
            (case map_of domain_defaults (lower domain_name) of
               Some defaults \<Rightarrow> add_defaults existing defaults
             | None \<Rightarrow> existing);
          keywords2 =
            (if lower domain_name \<notin> set (map lower keywords1) then keywords1 @ [domain_name]
             else keywords1)
      in take 20 keywords2)"

text \<open>
  \<open>_ensure_fields\<close>: a key that is missing or \<open>None\<close> gets its default; a keyword
  list shorter than 10 is expanded.
\<close>

definition ensure_fields :: "PromptAnalysis \<Rightarrow> PromptAnalysis" where
  "ensure_fields r =
     (let r1 = \<lparr> pa_domain = Some (get_or (pa_domain r) ''general''),
                 pa_sub_domains = Some (get_or (pa_sub_domains r) []),
                 pa_personality = Some (get_or (pa_personality r) ''helpful and professional''),
                 pa_constraints = Some (get_or (pa_constraints r) []),
                 pa_suggested_name = Some (get_or (pa_suggested_name r) ''MEXAR Agent''),
                 pa_domain_keywords = Some (get_or (pa_domain_keywords r) []),
                 pa_tone = Some (get_or (pa_tone r) ''professional''),
                 pa_capabilities = Some (get_or (pa_capabilities r) []) \<rparr>
      in if length (get_or (pa_domain_keywords r1) []) < 10
         then r1 \<lparr> pa_domain_keywords :=
                     Some (expand_keywords (get_or (pa_domain_keywords r1) [])
                             (get_or (pa_domain r1) ''general'')) \<rparr>
         else r1)"

definition domain_indicators :: "(string \<times> string list) list" where
  "domain_indicators =
     [(''medical'', [''medical'', ''doctor'', ''patient'', ''health'', ''hospital'', ''treatment'']),
      (''legal'', [''legal'', ''law'', ''attorney'', ''court'', ''contract'', ''rights'']),
      (''cooking'', [''cook'', ''recipe'', ''food'', ''chef'', ''kitchen'', ''ingredient'']),
      (''technology'', [''tech'', ''software'', ''code'', ''programming'', ''computer'']),
      (''finance'', [''finance'', ''money'', ''bank'', ''investment'', ''budget''])]"

fun detect_domain :: "string list \<Rightarrow> (string \<times> string list) list \<Rightarrow> string" where
  "detect_domain ws [] = ''general''"
| "detect_domain ws ((domain_name, indicators) # rest) =
     (if list_ex (\<lambda>ind. ind \<in> set ws) indicators then domain_name
      else detect_domain ws rest)"

definition create_fallback_analysis :: "string \<Rightarrow> PromptAnalysis" where
  "create_fallback_analysis system_prompt =
     (let ws = split_ws (lower system_prompt);
          detected_domain = detect_domain ws domain_indicators
      in \<lparr> pa_domain = Some detected_domain,
           pa_sub_domains = Some [],
           pa_personality = Some ''helpful assistant'',
           pa_constraints = Some [''Stay within knowledge base'', ''Be accurate''],
           pa_suggested_name = Some (''MEXAR '' @ title detected_domain @ '' Agent''),
           pa_domain_keywords = Some (expand_keywords [] detected_domain),
           pa_tone = Some ''professional'',
           pa_capabilities = Some [''Answer questions'', ''Provide information''] \<rparr>)"

text \<open>
  \<open>analyze_prompt\<close>. \<open>loads_analysis\<close> stands for \<open>json.loads\<close> followed by the
  reading of the object's keys: it gives \<open>None\<close> for a reply that is not JSON or not a
  JSON object (both end in the fallback), and a key that is missing or \<open>null\<close> is
  \<open>None\<close> in the record. Replies with values of another JSON type than the prompt asks
  for are outside the model.
\<close>

definition analyze_prompt ::
  "groq_client \<Rightarrow> (string \<Rightarrow> PromptAnalysis option) \<Rightarrow> string \<Rightarrow> PromptAnalysis" where
  "analyze_prompt client loads_analysis system_prompt =
     (case client (analysis_request system_prompt) of
        Inl e \<Rightarrow> create_fallback_analysis system_prompt
      | Inr reply \<Rightarrow>
          (case loads_analysis reply of
             None \<Rightarrow> create_fallback_analysis system_prompt
           | Some r \<Rightarrow> ensure_fields r))"

section \<open>Knowledge compilation (modules/knowledge_compiler.py)\<close>

text \<open>
  The database: the rows of the \<open>agents\<close>, \<open>compilation_jobs\<close> and
  \<open>document_chunks\<close> tables (the embedding column of a chunk is not modelled).
\<close>

record CompilationJob =
  job_id :: int
  job_agent_id :: int
  job_status :: string
  job_progress :: nat
  job_current_step :: string
  job_error_message :: "string option"
  job_completed_at :: "nat option"

record db_state =
  db_agents :: "Agent list"
  db_jobs :: "CompilationJob list"
  db_chunks :: "DocumentChunk list"

text \<open>
  A parsed file handed to \<open>compile\<close> is a dictionary read with \<open>get\<close>. For the key
  \<open>data\<close> a missing key and a \<open>None\<close> value differ: \<open>len(p.get("data", []))\<close>
  raises on \<open>None\<close>.
\<close>

datatype 'a field = Absent | Null | Val 'a

record file_data =
  fd_file_name :: "string option"
  fd_source :: "string option"
  fd_format :: "string option"
  fd_type :: "string option"
  fd_data :: "json list field"
  fd_text :: "string option"
  fd_content :: "string option"
  fd_records :: "string list option"

definition data_items :: "file_data \<Rightarrow> json list" where
  "data_items fd = (case fd_data fd of Val xs \<Rightarrow> xs | _ \<Rightarrow> [])"

definition rule60 :: string where
  "rule60 = replicate 60 CHR ''=''"

definition entry_part :: "py_env \<Rightarrow> nat \<times> json \<Rightarrow> string" where
  "entry_part py je =
     (case je of
        (j, JObj kvs) \<Rightarrow>
          join nl ((''[Entry '' @ str_nat (j + 1) @ '']'') #
                   map (\<lambda>(k, v). ''  '' @ k @ '': '' @ py_str py v)
                     (filter (\<lambda>(k, v). v \<noteq> JNull \<and> strip (py_str py v) \<noteq> []) kvs))
      | (j, entry) \<Rightarrow> ''[Entry '' @ str_nat (j + 1) @ ''] '' @ py_str py entry)"

definition record_parts :: "string list \<Rightarrow> string list" where
  "record_parts records =
     map (\<lambda>(j, r). ''[Line '' @ str_nat (j + 1) @ ''] '' @ r)
       (filter (\<lambda>(j, r). r \<noteq> [] \<and> strip r \<noteq> []) (enumerate 0 records))"

definition file_parts :: "py_env \<Rightarrow> nat \<times> file_data \<Rightarrow> string list" where
  "file_parts py ifd =
     (case ifd of
        (i, fd) \<Rightarrow>
          (let file_name =
                 get_or (fd_file_name fd) (get_or (fd_source fd) (''Source_'' @ str_nat (i + 1)));
               file_format = get_or (fd_format fd) (get_or (fd_type fd) ''unknown'')
           in [nl @ rule60,
               ''SOURCE: '' @ file_name @ '' ('' @ upper file_format @ '')'',
               rule60 @ nl] @
              (if data_items fd \<noteq> [] then map (entry_part py) (enumerate 0 (data_items fd))
               else if get_or (fd_text fd) [] \<noteq> [] then [get_or (fd_text fd) []]
               else if get_or (fd_content fd) [] \<noteq> [] then [get_or (fd_content fd) []]
               else record_parts (get_or (fd_records fd) []))))"

definition build_text_context :: "py_env \<Rightarrow> file_data list \<Rightarrow> string" where
  "build_text_context py parsed_data =
     (let text_context = join nl (concat (map (file_parts py) (enumerate 0 parsed_data)));
          max_chars = 500000
      in if max_chars < length text_context
         then take max_chars text_context @ nl @ nl @ ''[CONTEXT TRUNCATED DUE TO SIZE LIMITS]''
         else text_context)"

text \<open>\<open>s.replace("_", " ")\<close>.\<close>

definition underscores_to_spaces :: "string \<Rightarrow> string" where
  "underscores_to_spaces s = map (\<lambda>c. if c = CHR ''_'' then CHR '' '' else c) s"

fun add_sub_domains :: "string list \<Rightarrow> string list \<Rightarrow> string list" where
  "add_sub_domains signature [] = signature"
| "add_sub_domains signature (sub_domain # rest) =
     (if sub_domain \<noteq> [] \<and> lower sub_domain \<notin> set (map lower signature)
      then add_sub_domains (signature @ [sub_domain]) rest
      else add_sub_domains signature rest)"

fun add_keys :: "string list \<Rightarrow> string list \<Rightarrow> string list" where
  "add_keys signature [] = signature"
| "add_keys signature (k # ks) =
     (let clean_key = underscores_to_spaces (strip (lower k))
      in if clean_key \<noteq> [] \<and> clean_key \<notin> set (map lower signature)
         then add_keys (signature @ [clean_key]) ks
         else add_keys signature ks)"

definition header_keys :: "file_data \<Rightarrow> string list" where
  "header_keys fd = (case data_items fd of JObj kvs # _ \<Rightarrow> map fst kvs | _ \<Rightarrow> [])"

definition extract_domain_signature :: "file_data list \<Rightarrow> PromptAnalysis \<Rightarrow> string list" where
  "extract_domain_signature parsed_data prompt_analysis =
     (let signature0 = get_or (pa_domain_keywords prompt_analysis) [];
          domain_name = get_or (pa_domain prompt_analysis) [];
          signature1 =
            (if domain_name \<noteq> [] \<and> domain_name \<notin> set signature0 then domain_name # signature0
             else signature0);
          signature2 = add_sub_domains signature1 (get_or (pa_sub_domains prompt_analysis) []);
          signature3 = foldl (\<lambda>sg fd. add_keys sg (header_keys fd)) signature2 parsed_data
      in take 80 signature3)"

record CompileStats =
  context_length :: nat
  context_tokens :: nat
  source_files :: nat
  cs_total_entries :: nat

definition entries_in :: "file_data \<Rightarrow> exn + nat" where
  "entries_in fd =
     (case fd_data fd of
        Null \<Rightarrow> Inl (Exn ''object of type NoneType has no len()'')
      | Val xs \<Rightarrow> Inr (if xs \<noteq> [] then length xs else length (get_or (fd_records fd) []))
      | Absent \<Rightarrow> Inr (length (get_or (fd_records fd) [])))"

fun sum_entries :: "file_data list \<Rightarrow> exn + nat" where
  "sum_entries [] = Inr 0"
| "sum_entries (fd # fds) =
     (case entries_in fd of
        Inl e \<Rightarrow> Inl e
      | Inr n \<Rightarrow> (case sum_entries fds of Inl e \<Rightarrow> Inl e | Inr m \<Rightarrow> Inr (n + m)))"

definition calculate_stats :: "string \<Rightarrow> file_data list \<Rightarrow> exn + CompileStats" where
  "calculate_stats text_context parsed_data =
     (case sum_entries parsed_data of
        Inl e \<Rightarrow> Inl e
      | Inr n \<Rightarrow> Inr \<lparr> context_length = length text_context,
                       context_tokens = length text_context div 4,
                       source_files = length parsed_data,
                       cs_total_entries = n \<rparr>)"

text \<open>
  \<open>_chunk_text\<close> with its default \<open>chunk_size = 1000\<close> and \<open>overlap = 100\<close>: the
  loop from position \<open>start\<close>.
\<close>

function chunk_text_from :: "string \<Rightarrow> nat \<Rightarrow> string list" where
  "chunk_text_from txt start =
     (if start < length txt
      then (let stop = min (start + 1000) (length txt)
            in take (stop - start) (drop start txt) #
               (if stop = length txt then [] else chunk_text_from txt (start + (1000 - 100))))
      else [])"
  by pat_completeness auto
termination
  by (relation "measure (\<lambda>(txt, start). length txt - start)") auto

declare chunk_text_from.simps [simp del]

definition chunk_text :: "string \<Rightarrow> string list" where
  "chunk_text txt = (if txt = [] then [] else chunk_text_from txt 0)"

text \<open>
  The compiler: its embedding model (\<open>None\<close> when loading failed), the writing of the
  agent's files by \<open>_save_agent\<close> (which may raise), and whether the deletion of the old
  chunks and the commit of the new ones fail in the vector store session. The progress
  dictionary of the compiler is not modelled.
\<close>

record 'v compiler =
  kc_embedding_model :: "'v embedder option"
  kc_save_agent :: "string \<Rightarrow> string \<Rightarrow> exn option"
  kc_delete_fails :: bool
  kc_commit_fails :: bool

text \<open>The primary key the database gives to a new chunk row.\<close>

definition next_chunk_id :: "DocumentChunk list \<Rightarrow> int" where
  "next_chunk_id rows = foldr (\<lambda>c m. max (chunk_id c) m) rows 0 + 1"

definition new_chunk_rows :: "int \<Rightarrow> int \<Rightarrow> (string \<times> 'v) list \<Rightarrow> DocumentChunk list" where
  "new_chunk_rows first_id aid pairs =
     map (\<lambda>(i, (chunk, embedding)).
            \<lparr> chunk_id = first_id + int i, chunk_agent_id = aid, chunk_content = chunk,
              chunk_source = Some ''context'' \<rparr>)
       (enumerate 0 pairs)"

definition set_chunk_count :: "int \<Rightarrow> nat \<Rightarrow> Agent list \<Rightarrow> Agent list" where
  "set_chunk_count aid n rows =
     map (\<lambda>a. if agent_id a = aid then a \<lparr> agent_chunk_count := Some n \<rparr> else a) rows"

definition save_to_vector_db :: "'v compiler \<Rightarrow> 'v embedder \<Rightarrow> db_state \<Rightarrow> string \<Rightarrow> string \<Rightarrow> db_state" where
  "save_to_vector_db kc m db name context =
     (let chunks = chunk_text context
      in if chunks = [] then db
         else
           (case embed m chunks of
              Inl e \<Rightarrow> db
            | Inr embeddings \<Rightarrow>
                (case find (\<lambda>a. agent_name a = name) (db_agents db) of
                   None \<Rightarrow> db
                 | Some agent \<Rightarrow>
                     (let kept =
                            (if kc_delete_fails kc then db_chunks db
                             else filter (\<lambda>c. chunk_agent_id c \<noteq> agent_id agent) (db_chunks db));
                          new_chunks =
                            new_chunk_rows (next_chunk_id (db_chunks db)) (agent_id agent)
                              (zip chunks embeddings)
                      in if kc_commit_fails kc then db
                         else db \<lparr> db_chunks := kept @ new_chunks,
                                   db_agents :=
                                     set_chunk_count (agent_id agent) (length new_chunks)
                                       (db_agents db) \<rparr>))))"

record CompileResult =
  cr_domain_signature :: "string list"
  cr_stats :: "CompileStats option"

definition compile ::
  "'v compiler \<Rightarrow> py_env \<Rightarrow> db_state \<Rightarrow> string \<Rightarrow> file_data list \<Rightarrow> string \<Rightarrow> PromptAnalysis
     \<Rightarrow> (exn + CompileResult) \<times> db_state" where
  "compile kc py db name parsed_data system_prompt prompt_analysis =
     (let text_context = build_text_context py parsed_data;
          domain_signature = extract_domain_signature parsed_data prompt_analysis
      in case calculate_stats text_context parsed_data of
           Inl e \<Rightarrow> (Inl e, db)
         | Inr st \<Rightarrow>
             (case kc_save_agent kc name text_context of
                Some e \<Rightarrow> (Inl e, db)
              | None \<Rightarrow>
                  (let db' =
                         (case kc_embedding_model kc of
                            None \<Rightarrow> db
                          | Some m \<Rightarrow> save_to_vector_db kc m db name text_context)
                   in (Inr \<lparr> cr_domain_signature = domain_signature, cr_stats = Some st \<rparr>,
                       db'))))"

section \<open>The compilation worker (workers/compilation_worker.py)\<close>

record file_info =
  fi_content :: "string option"
  fi_filename :: "string option"

text \<open>\<open>content.split("\n")\<close>: the pieces between the separators.\<close>

fun split_on_aux :: "char \<Rightarrow> string \<Rightarrow> string \<Rightarrow> string list" where
  "split_on_aux sep acc [] = [rev acc]"
| "split_on_aux sep acc (c # cs) =
     (if c = sep then rev acc # split_on_aux sep [] cs else split_on_aux sep (c # acc) cs)"

definition split_lines :: "string \<Rightarrow> string list" where
  "split_lines s = split_on_aux (CHR 0x0A) [] s"

definition to_parsed :: "file_info \<Rightarrow> file_data" where
  "to_parsed fi =
     (let content = get_or (fi_content fi) [];
          filename = get_or (fi_filename fi) ''unknown''
      in \<lparr> fd_file_name = None, fd_source = Some filename, fd_format = None,
           fd_type = Some ''text'', fd_data = Absent, fd_text = None,
           fd_content = Some content,
           fd_records = Some (if content \<noteq> [] then split_lines content else []) \<rparr>)"

text \<open>
  What the worker depends on: the LLM client of the prompt analyzer, the two factories
  (each may raise), the clock, and the commits of the worker's database session, numbered
  in the order they are issued (\<open>Some e\<close> is a commit that raises \<open>e\<close>; the changes made
  since the last commit are then lost). The worker runs in a thread of its own; the model
  runs it to its end.
\<close>

record 'v worker_env =
  we_client :: groq_client
  we_loads_analysis :: "string \<Rightarrow> PromptAnalysis option"
  we_py :: py_env
  we_create_prompt_analyzer :: "exn option"
  we_create_knowledge_compiler :: "string \<Rightarrow> exn + 'v compiler"
  we_commit :: "nat \<Rightarrow> exn option"
  we_utcnow :: nat

definition update_job :: "int \<Rightarrow> (CompilationJob \<Rightarrow> CompilationJob) \<Rightarrow> db_state \<Rightarrow> db_state" where
  "update_job jid f db = db \<lparr> db_jobs := map (\<lambda>j. if job_id j = jid then f j else j) (db_jobs db) \<rparr>"

definition update_agent :: "int \<Rightarrow> (Agent \<Rightarrow> Agent) \<Rightarrow> db_state \<Rightarrow> db_state" where
  "update_agent aid f db =
     db \<lparr> db_agents := map (\<lambda>a. if agent_id a = aid then f a else a) (db_agents db) \<rparr>"

definition commit :: "'v worker_env \<Rightarrow> nat \<Rightarrow> (db_state \<Rightarrow> db_state) \<Rightarrow> db_state \<Rightarrow> exn + db_state" where
  "commit env n change db = (case we_commit env n of Some e \<Rightarrow> Inl e | None \<Rightarrow> Inr (change db))"

definition update_progress ::
  "'v worker_env \<Rightarrow> nat \<Rightarrow> int \<Rightarrow> nat \<Rightarrow> string \<Rightarrow> db_state \<Rightarrow> exn + db_state" where
  "update_progress env n jid progress step db =
     commit env n (update_job jid (\<lambda>j. j \<lparr> job_progress := progress, job_current_step := step \<rparr>)) db"

definition str_exn :: "exn \<Rightarrow> string" where
  "str_exn e = (case e of Exn msg \<Rightarrow> msg)"

definition mark_ready :: "PromptAnalysis \<Rightarrow> CompileResult \<Rightarrow> Agent \<Rightarrow> Agent" where
  "mark_ready prompt_analysis result a =
     a \<lparr> agent_status := ''ready'',
         agent_domain := Some (get_or (pa_domain prompt_analysis) ''general''),
         agent_domain_keywords := get_or (pa_domain_keywords prompt_analysis) [],
         agent_entity_count :=
           (case cr_stats result of None \<Rightarrow> 0 | Some st \<Rightarrow> cs_total_entries st) \<rparr>"

definition mark_completed :: "nat \<Rightarrow> CompilationJob \<Rightarrow> CompilationJob" where
  "mark_completed now j =
     j \<lparr> job_status := ''completed'', job_progress := 100,
         job_current_step := ''Compilation complete'', job_completed_at := Some now \<rparr>"

text \<open>
  The body of the \<open>try\<close> of \<open>_run_compilation_thread\<close> after the job and the agent
  have been found: the exception that left it (if any), the database as committed so
  far, and the number of commits issued.
\<close>

definition compilation_steps ::
  "'v worker_env \<Rightarrow> db_state \<Rightarrow> CompilationJob \<Rightarrow> Agent \<Rightarrow> string \<Rightarrow> string \<Rightarrow> file_info list
     \<Rightarrow> exn option \<times> db_state \<times> nat" where
  "compilation_steps env db job agent storage_path system_prompt files_data =
     (case update_progress env 0 (job_id job) 10 ''Analyzing system prompt'' db of
        Inl e \<Rightarrow> (Some e, db, 1)
      | Inr db1 \<Rightarrow>
     (case we_create_prompt_analyzer env of
        Some e \<Rightarrow> (Some e, db1, 1)
      | None \<Rightarrow>
     (let prompt_analysis = analyze_prompt (we_client env) (we_loads_analysis env) system_prompt
      in
     (case update_progress env 1 (job_id job) 20 ''Initializing knowledge compiler'' db1 of
        Inl e \<Rightarrow> (Some e, db1, 2)
      | Inr db2 \<Rightarrow>
     (case we_create_knowledge_compiler env storage_path of
        Inl e \<Rightarrow> (Some e, db2, 2)
      | Inr kc \<Rightarrow>
     (case update_progress env 2 (job_id job) 30 ''Compiling knowledge base'' db2 of
        Inl e \<Rightarrow> (Some e, db2, 3)
      | Inr db3 \<Rightarrow>
     (let parsed_data = map to_parsed files_data;
          (result, db4) =
            (case compile kc (we_py env) db3 (agent_name agent) parsed_data system_prompt
                    prompt_analysis of
               (Inl compile_error, d) \<Rightarrow> (\<lparr> cr_domain_signature = [], cr_stats = None \<rparr>, d)
             | (Inr r, d) \<Rightarrow> (r, d))
      in
     (case update_progress env 3 (job_id job) 80 ''Saving to vector store'' db4 of
        Inl e \<Rightarrow> (Some e, db4, 4)
      | Inr db5 \<Rightarrow>
     (case update_progress env 4 (job_id job) 90 ''Updating agent metadata'' db5 of
        Inl e \<Rightarrow> (Some e, db5, 5)
      | Inr db6 \<Rightarrow>
     (case commit env 5
             (\<lambda>d. update_job (job_id job) (mark_completed (we_utcnow env))
                     (update_agent (agent_id agent) (mark_ready prompt_analysis result) d)) db6 of
        Inl e \<Rightarrow> (Some e, db6, 6)
      | Inr db7 \<Rightarrow> (None, db7, 6)))))))))))"

text \<open>
  The \<open>except\<close> branch: the job and the agent are marked failed and the change is
  committed; when that commit raises, the session is rolled back.
\<close>

definition mark_failed :: "'v worker_env \<Rightarrow> db_state \<Rightarrow> int \<Rightarrow> int \<Rightarrow> exn \<Rightarrow> nat \<Rightarrow> db_state" where
  "mark_failed env db jid aid e n =
     (case commit env n
             (\<lambda>d. update_agent aid (\<lambda>a. a \<lparr> agent_status := ''failed'' \<rparr>)
                     (update_job jid
                        (\<lambda>j. j \<lparr> job_status := ''failed'',
                                  job_error_message := Some (take 500 (str_exn e)),
                                  job_completed_at := Some (we_utcnow env) \<rparr>) d)) db of
        Inl update_error \<Rightarrow> db
      | Inr db' \<Rightarrow> db')"

definition run_compilation_thread ::
  "'v worker_env \<Rightarrow> db_state \<Rightarrow> int \<Rightarrow> int \<Rightarrow> string \<Rightarrow> string \<Rightarrow> file_info list \<Rightarrow> db_state" where
  "run_compilation_thread env db aid jid storage_path system_prompt files_data =
     (case (find (\<lambda>j. job_id j = jid) (db_jobs db), find (\<lambda>a. agent_id a = aid) (db_agents db)) of
        (Some job, Some agent) \<Rightarrow>
          (case compilation_steps env db job agent storage_path system_prompt files_data of
             (None, db', n) \<Rightarrow> db'
           | (Some e, db', n) \<Rightarrow> mark_failed env db' jid aid e n)
      | _ \<Rightarrow> db)"

text \<open>
  \<open>CompilationWorker.start_compilation\<close>: the job row is created \<open>in_progress\<close> with
  a new primary key and the thread is started.
\<close>

definition next_job_id :: "CompilationJob list \<Rightarrow> int" where
  "next_job_id rows = foldr (\<lambda>j m. max (job_id j) m) rows 0 + 1"

definition start_compilation :: "'v worker_env \<Rightarrow> db_state \<Rightarrow> Agent \<Rightarrow> file_info list \<Rightarrow> db_state" where
  "start_compilation env db agent files_data =
     (let job = \<lparr> job_id = next_job_id (db_jobs db), job_agent_id = agent_id agent,
                  job_status = ''in_progress'', job_progress = 0,
                  job_current_step = ''Initializing'', job_error_message = None,
                  job_completed_at = None \<rparr>;
          db1 = db \<lparr> db_jobs := db_jobs db @ [job] \<rparr>
      in run_compilation_thread env db1 (agent_id agent) (job_id job) (agent_storage_path agent)
           (agent_system_prompt agent) files_data)"

section \<open>The specification's formulas\<close>

text \<open>
  The confidence as the specification words it, with both normalisations clamped to
  \<open>[0, 1]\<close>; the base score of the guardrail (the local \<open>base_score\<close> of
  \<open>_check_guardrail\<close>); and the assumption on the \<open>hybrid_search\<close> SQL function,
  which is not part of the sources read here, that its reciprocal-rank-fusion scores are
  not negative.
\<close>

definition clamp :: "rat \<Rightarrow> rat \<Rightarrow> rat \<Rightarrow> rat" where
  "clamp x lo hi = min hi (max lo x)"

definition spec_confidence :: "rat \<Rightarrow> rat \<Rightarrow> rat \<Rightarrow> rat" where
  "spec_confidence top_rrf top_rerank faithfulness =
     (let norm_sim = clamp (top_rrf * 30) 0 1;
          norm_rr = clamp ((top_rerank + 10) / 20) 0 1;
          raw = 35 / 100 * norm_sim + 30 / 100 * norm_rr + 25 / 100 * faithfulness + 10 / 100;
          adjusted = (if 7 / 10 < norm_sim \<and> 8 / 10 < faithfulness then max raw (75 / 100)
                      else if norm_sim < 3 / 10 then min raw (45 / 100)
                      else raw)
      in py_round (clamp adjusted (15 / 100) (95 / 100)) 2)"

definition rrf_nonneg :: "'v search_db \<Rightarrow> bool" where
  "rrf_nonneg db =
     (\<forall>emb q aid k rows. rpc_hybrid_search db emb q aid k = Inr rows \<longrightarrow>
        (\<forall>row \<in> set rows. 0 \<le> snd row))"

definition guardrail_base :: "py_fmt \<Rightarrow> string \<Rightarrow> string list \<Rightarrow> rat" where
  "guardrail_base py query domain_signature =
     count_matches py (remdups (split_ws (lower query))) (map lower domain_signature)
       / of_nat (max 1 (min (length (remdups (split_ws (lower query)))) 10))"

text \<open>
  The chunk ids in the order in which they are first seen, the position of an element in a
  list, and the numbering of a list from a starting number: with them the citation number
  of a chunk is one more than its position among the chunks first seen. \<open>loop_inv\<close>
  is the invariant of the loop of \<open>attribute\<close>.
\<close>

definition first_seen :: "'a list \<Rightarrow> 'a list" where
  "first_seen xs = rev (remdups (rev xs))"

fun index_of :: "'a list \<Rightarrow> 'a \<Rightarrow> nat" where
  "index_of [] x = 0"
| "index_of (y # ys) x = (if x = y then 0 else Suc (index_of ys x))"

fun number_from :: "nat \<Rightarrow> 'a list \<Rightarrow> ('a \<times> nat) list" where
  "number_from k [] = []"
| "number_from k (y # ys) = (y, k) # number_from (Suc k) ys"

definition loop_inv :: "(int \<times> nat) list \<Rightarrow> AttributedSentence list \<Rightarrow> bool" where
  "loop_inv used acc =
     (let ids = map source_chunk_id acc; firsts = first_seen ids
      in used = number_from 1 firsts
         \<and> map citation acc = map (\<lambda>c. cite (Suc (index_of firsts c))) ids)"

section \<open>Example inputs\<close>

text \<open>Concrete collaborators and data on which the theorems below are instantiated.\<close>

definition client_down :: groq_client where
  "client_down req = Inl (Exn ''provider unavailable'')"

definition loads_nothing :: "string \<Rightarrow> json option" where
  "loads_nothing s = None"

definition repr_blank :: "json \<Rightarrow> string" where
  "repr_blank j = ''?''"

definition py_plain :: py_env where
  "py_plain = \<lparr> json_loads = loads_nothing, repr_other = repr_blank \<rparr>"

definition ch7 :: DocumentChunk where
  "ch7 = \<lparr> chunk_id = 7, chunk_agent_id = 1,
           chunk_content = ''Romaine, parmesan and croutons make a Caesar salad'',
           chunk_source = Some ''recipes.csv'' \<rparr>"

definition unit_embed :: "string list \<Rightarrow> exn + unit list" where
  "unit_embed ts = Inr (map (\<lambda>t. ()) ts)"

definition unit_dot :: "unit \<Rightarrow> unit \<Rightarrow> rat option" where
  "unit_dot a b = Some 1"

definition unit_norm :: "unit \<Rightarrow> rat" where
  "unit_norm a = 1"

definition unit_embedder :: "unit embedder" where
  "unit_embedder = \<lparr> embed = unit_embed, np_dot = unit_dot, np_norm = unit_norm \<rparr>"

definition rpc_demo :: "unit \<Rightarrow> string \<Rightarrow> int \<Rightarrow> int \<Rightarrow> exn + (int \<times> rat) list" where
  "rpc_demo emb q aid k = Inr [(7, 1 / 61)]"

definition chunks_demo :: "int list \<Rightarrow> exn + DocumentChunk list" where
  "chunks_demo ids = Inr [ch7]"

definition nearest_demo :: "unit \<Rightarrow> int \<Rightarrow> int \<Rightarrow> exn + DocumentChunk list" where
  "nearest_demo emb aid k = Inr [ch7]"

definition db_demo :: "unit search_db" where
  "db_demo = \<lparr> rpc_hybrid_search = rpc_demo, chunks_by_ids = chunks_demo, nearest_chunks = nearest_demo \<rparr>"

definition ratio_zero :: "string \<Rightarrow> string \<Rightarrow> rat" where
  "ratio_zero s t = 0"

definition format_blank :: "rat \<Rightarrow> string" where
  "format_blank x = ''0''"

definition fmt_plain :: py_fmt where
  "fmt_plain = \<lparr> seq_ratio = ratio_zero, format_0f = format_blank \<rparr>"

definition cooking_analysis :: PromptAnalysis where
  "cooking_analysis =
     \<lparr> pa_domain = Some ''cooking'', pa_sub_domains = Some [], pa_personality = None,
       pa_constraints = None, pa_suggested_name = None,
       pa_domain_keywords = Some [''recipe'', ''ingredient'', ''cook''], pa_tone = None,
       pa_capabilities = None \<rparr>"

definition chef :: Agent where
  "chef = \<lparr> agent_id = 1, agent_name = ''chef'', agent_system_prompt = ''You are a chef.'',
            agent_storage_path = ''data/agents/chef'', agent_status = ''ready'',
            agent_domain = Some ''cooking'', agent_domain_keywords = [''recipe''],
            agent_domain_signature = Some [''recipe'', ''ingredient''],
            agent_prompt_analysis = Some cooking_analysis, agent_chunk_count = Some 1,
            agent_entity_count = 1 \<rparr>"

definition chef_data :: agent_data where
  "chef_data = \<lparr> ad_id = 1, ad_name = ''chef'', ad_system_prompt = ''You are a chef.'',
                 ad_domain = Some ''cooking'', ad_domain_signature = [''recipe'', ''ingredient''],
                 ad_prompt_analysis = cooking_analysis, ad_chunk_count = 1 \<rparr>"

definition eng_demo :: "unit engine" where
  "eng_demo = \<lparr> eng_client = client_down, eng_py = py_plain, eng_fmt = fmt_plain,
                eng_embedding_model = Some unit_embedder, eng_cross_encoder = None,
                eng_search_db = db_demo, eng_agents = [chef] \<rparr>"

definition no_cache :: agent_cache where
  "no_cache n = None"

definition apology :: string where
  "apology = ''I apologize, but I encountered an error processing your query. Please try again.''"

definition apology_s1 :: string where
  "apology_s1 = ''I apologize, but I encountered an error processing your query.''"

definition apology_s2 :: string where
  "apology_s2 = ''Please try again.''"

definition cited :: string where
  "cited = ''I apologize, but I encountered an error processing your query. [1] Please try again.''"

definition demo_response :: response where
  "demo_response = \<lparr> resp_answer = cited, resp_confidence = 17 / 25, resp_in_domain = True \<rparr>"

definition csv20 :: ParsedSource where
  "csv20 = \<lparr> ps_file_name = ''recipes.csv'', ps_format = ''csv'', ps_data = Some [],
             ps_text = Some ''Entry 1: name=Caesar Salad'', ps_entries_count = Some 20,
             ps_error = None \<rparr>"

definition txt19 :: ParsedSource where
  "txt19 = \<lparr> ps_file_name = ''notes.txt'', ps_format = ''txt'', ps_data = None,
             ps_text = Some ''nineteen short lines'', ps_entries_count = Some 19,
             ps_error = None \<rparr>"

definition ch12 :: DocumentChunk where
  "ch12 = \<lparr> chunk_id = 12, chunk_agent_id = 1,
            chunk_content = ''Croutons are toasted bread cubes'',
            chunk_source = Some ''bread.txt'' \<rparr>"

definition text_embed :: "string list \<Rightarrow> exn + string list" where
  "text_embed ts = Inr ts"

definition initial_dot :: "string \<Rightarrow> string \<Rightarrow> rat option" where
  "initial_dot a b = Some (if take 1 a = take 1 b then 1 else 0)"

definition one_norm :: "string \<Rightarrow> rat" where
  "one_norm v = 1"

definition initial_embedder :: "string embedder" where
  "initial_embedder = \<lparr> embed = text_embed, np_dot = initial_dot, np_norm = one_norm \<rparr>"

definition salad_answer :: string where
  "salad_answer = ''Romaine lettuce is the base. Croutons give it some crunch. Romaine is also very green.''"

definition salad_attributed :: AttributedAnswer where
  "salad_attributed =
     \<lparr> answer_with_citations =
         ''Romaine lettuce is the base. [1] Croutons give it some crunch. [2] Romaine is also very green. [1]'',
       sentences =
         [\<lparr> sentence_text = ''Romaine lettuce is the base.'', citation = ''[1]'',
            source_chunk_id = 7,
            source_preview = ''Romaine, parmesan and croutons make a Caesar salad'',
            source_file = ''recipes.csv'', similarity = 1 \<rparr>,
          \<lparr> sentence_text = ''Croutons give it some crunch.'', citation = ''[2]'',
            source_chunk_id = 12, source_preview = ''Croutons are toasted bread cubes'',
            source_file = ''bread.txt'', similarity = 1 \<rparr>,
          \<lparr> sentence_text = ''Romaine is also very green.'', citation = ''[1]'',
            source_chunk_id = 7,
            source_preview = ''Romaine, parmesan and croutons make a Caesar salad'',
            source_file = ''recipes.csv'', similarity = 1 \<rparr>],
       sources =
         [\<lparr> src_citation = ''[1]'', src_chunk_id = 7, src_source = ''recipes.csv'',
            src_preview = ''Romaine, parmesan and croutons make a Caesar salad'',
            src_similarity = 1 \<rparr>,
          \<lparr> src_citation = ''[2]'', src_chunk_id = 12, src_source = ''bread.txt'',
            src_preview = ''Croutons are toasted bread cubes'', src_similarity = 1 \<rparr>] \<rparr>"

definition no_embedder :: "unit embedder option" where
  "no_embedder = None"

definition romaine_attr :: AttributedSentence where
  "romaine_attr = \<lparr> sentence_text = ''Romaine is the base.'', citation = ''[1]'',
       source_chunk_id = 7, source_preview = ''Romaine'', source_file = ''recipes.csv'',
       similarity = 1 / 2 \<rparr>"

definition greeting_only :: AttributedAnswer where
  "greeting_only = \<lparr> answer_with_citations = ''Hello there.'', sentences = [], sources = [] \<rparr>"

section \<open>Faithfulness of an answer against an empty context\<close>

text \<open>
  C10. \<open>FaithfulnessScorer.score\<close> called with an empty answer or an empty context
  returns score 1.0 with no claims counted, none supported and none unsupported, and makes
  no request to the LLM.
\<close>

theorem score_empty_input:
  "answer = [] \<or> context = [] \<Longrightarrow>
     faithfulness_score client py answer context =
       (\<lparr> score = 1, total_claims = 0, supported_claims = 0, unsupported_claims = [] \<rparr>, [])"
  by (simp add: faithfulness_score_def no_claims_def)

theorem score_empty_input_witness:
  "faithfulness_score client_down py_plain ''Romaine is the base.'' [] =
     (\<lparr> score = 1, total_claims = 0, supported_claims = 0, unsupported_claims = [] \<rparr>, [])"
  using score_empty_input [of "''Romaine is the base.''" "[]" client_down py_plain] by simp


section \<open>General lemmas\<close>

lemma startswith_self: "startswith s s"
  by (induction s) auto

lemma contains_self: "contains s s"
  by (cases s) (auto simp: startswith_self)

lemma sum_list_map_nonneg: "(\<And>x. 0 \<le> f x) \<Longrightarrow> (0::rat) \<le> sum_list (map f xs)"
  by (induction xs) auto

lemma round_half_even_ge:
  assumes "of_int a \<le> x"
  shows "a \<le> round_half_even x"
proof -
  have "a \<le> floor x" using assms by (simp add: le_floor_iff)
  then show ?thesis by (simp add: round_half_even_def Let_def)
qed

lemma round_half_even_le:
  assumes "x \<le> of_int b"
  shows "round_half_even x \<le> b"
proof -
  have f: "floor x \<le> b" using assms by (simp add: floor_le_iff)
  have up: "floor x + 1 \<le> b" if "0 < x - of_int (floor x)"
  proof -
    have "of_int (floor x) < (of_int b :: rat)" using that assms by linarith
    then have "floor x < b" by simp
    then show ?thesis by simp
  qed
  show ?thesis using f up by (auto simp add: round_half_even_def Let_def)
qed

lemma py_round2_bounds:
  assumes "15 / 100 \<le> x" and "x \<le> 95 / 100"
  shows "15 / 100 \<le> py_round x 2 \<and> py_round x 2 \<le> 95 / 100"
proof -
  have "of_int 15 \<le> x * 10 ^ 2" using assms(1) by simp
  then have lo: "15 \<le> round_half_even (x * 10 ^ 2)" by (rule round_half_even_ge)
  have "x * 10 ^ 2 \<le> of_int 95" using assms(2) by simp
  then have hi: "round_half_even (x * 10 ^ 2) \<le> 95" by (rule round_half_even_le)
  have lo': "(15::rat) \<le> of_int (round_half_even (x * 10 ^ 2))" using lo by linarith
  have hi': "of_int (round_half_even (x * 10 ^ 2)) \<le> (95::rat)" using hi by linarith
  show ?thesis using lo' hi' by (simp add: py_round_def)
qed

section \<open>The example engine, evaluated\<close>

lemma demo_eng:
  "eng_client eng_demo = client_down" "eng_py eng_demo = py_plain" "eng_fmt eng_demo = fmt_plain"
  "eng_embedding_model eng_demo = Some unit_embedder" "eng_cross_encoder eng_demo = None"
  "eng_search_db eng_demo = db_demo"
  by (simp_all add: eng_demo_def)

lemma demo_agent:
  "ad_domain_signature chef_data = [''recipe'', ''ingredient'']"
  "ad_prompt_analysis chef_data = cooking_analysis"
  "ad_system_prompt chef_data = ''You are a chef.''"
  by (simp_all add: chef_data_def)

lemma demo_load: "fst (load_agent eng_demo no_cache ''chef'') = Inr chef_data"
  by (simp add: load_agent_def eng_demo_def no_cache_def chef_def chef_data_def get_or_def Let_def)

lemma demo_guardrail:
  "check_guardrail fmt_plain ''cooking'' [''recipe'', ''ingredient''] cooking_analysis = (True, 9 / 20)"
  by (simp add: check_guardrail_def Let_def lower_def lower_char_def split_ws_def is_space_def
      bonus_of_def count_matches_def get_or_def cooking_analysis_def fmt_plain_def ratio_zero_def
      DOMAIN_SIMILARITY_THRESHOLD_def)

lemma demo_retrieve: "retrieve eng_demo chef_data ''cooking'' = [(ch7, 1 / 61)]"
  by (simp add: retrieve_def search_def embed_one_def strip_def is_space_def eng_demo_def
      unit_embedder_def unit_embed_def db_demo_def rpc_demo_def chunks_demo_def ch7_def
      chef_data_def)

lemma demo_rerank: "rerank None ''cooking'' [ch7] 5 = [(ch7, 1 / 2)]"
  by (simp add: rerank_def placeholder_scores_def py_take_def ch7_def)

lemma demo_generate: "generate_answer client_down q c sp mm = apology"
  by (simp add: generate_answer_def client_down_def apology_def)

lemma demo_split: "re_split_sentences apology = [apology_s1, apology_s2]"
  by (simp add: re_split_sentences_def apology_def apology_s1_def apology_s2_def is_space_def
      is_sentence_end_def)

lemma demo_faithfulness:
  "fst (faithfulness_score client_down py_plain apology (build_context [ch7])) =
     \<lparr> score = 1, total_claims = 1, supported_claims = 1, unsupported_claims = [] \<rparr>"
proof -
  have a: "apology \<noteq> []" by (simp add: apology_def)
  have c: "build_context [ch7] \<noteq> []" by (simp add: build_context_def ch7_def)
  have f: "fallback_extract_claims apology = [apology_s1]"
    by (simp add: fallback_extract_claims_def demo_split)
       (simp add: apology_s1_def apology_s2_def strip_def is_space_def)
  show ?thesis
    by (simp add: faithfulness_score_def a c extract_claims_def f is_supported_def client_down_def
        Let_def py_round_def round_half_even_def)
qed

lemma demo_sentences: "split_sentences apology = [apology_s1, apology_s2]"
  by (simp add: split_sentences_def demo_split)
     (simp add: apology_s1_def apology_s2_def strip_def is_space_def)

lemma demo_words:
  "length (split_ws apology_s1) = 10" "length (split_ws apology_s2) = 3"
  by (simp_all add: apology_s1_def apology_s2_def split_ws_def is_space_def)

lemma demo_best: "find_best_source (Some unit_embedder) s [ch7] (Some [()]) = (Some ch7, 1)"
  by (simp add: find_best_source_def unit_embedder_def unit_embed_def unit_dot_def unit_norm_def
      cosine_similarity_def)

lemma demo_loop:
  "attribute_loop (Some unit_embedder) [ch7] (Some [()]) [apology_s1, apology_s2] [] [] =
     ([(7, 1)],
      [\<lparr> sentence_text = apology_s1, citation = ''[1]'', source_chunk_id = 7,
         source_preview = chunk_content ch7, source_file = ''recipes.csv'', similarity = 1 \<rparr>])"
proof -
  have c: "take 150 (chunk_content ch7) = chunk_content ch7" by (simp add: ch7_def)
  show ?thesis
    by (simp add: demo_words demo_best get_id_def get_content_def get_source_def cite_def
        str_nat.simps c)
       (simp add: ch7_def)
qed

lemma demo_cited:
  "build_cited_answer apology
     [\<lparr> sentence_text = apology_s1, citation = ''[1]'', source_chunk_id = 7,
        source_preview = p, source_file = f, similarity = 1 \<rparr>] = cited"
  by (simp add: build_cited_answer_def insert_citation_def apology_def apology_s1_def cited_def)

lemma demo_attribute:
  "\<exists>a. attribute (Some unit_embedder) apology [ch7] (Some [()]) = Inr a
       \<and> answer_with_citations a = cited"
proof -
  have a: "apology \<noteq> []" by (simp add: apology_def)
  show ?thesis
    by (simp add: attribute_def a demo_sentences demo_loop demo_cited del: attribute_loop.simps)
qed

lemma demo_confidence: "calculate_confidence (1 / 61) (1 / 2) 1 = 17 / 25"
  by code_simp

lemma demo_embed_chunks: "embed_chunks (Some unit_embedder) [ch7] = Some [()]"
  by (simp add: embed_chunks_def unit_embedder_def unit_embed_def)

lemma demo_answer:
  "answer_from_results eng_demo chef_data ''cooking'' [] ''cooking'' [(ch7, 1 / 61)] =
     Inr demo_response"
proof -
  obtain a where a: "attribute (Some unit_embedder) apology [ch7] (Some [()]) = Inr a"
    and c: "answer_with_citations a = cited" using demo_attribute by blast
  show ?thesis
    by (simp add: answer_from_results_def Let_def demo_eng demo_rerank demo_generate
        demo_embed_chunks a c demo_faithfulness first_or_zero_def demo_confidence
        demo_response_def)
qed

lemma demo_reason: "fst (reason eng_demo no_cache ''chef'' ''cooking'' []) = Inr demo_response"
proof -
  obtain c1 where l: "load_agent eng_demo no_cache ''chef'' = (Inr chef_data, c1)"
    using demo_load by (cases "load_agent eng_demo no_cache ''chef''") simp
  show ?thesis
    by (simp add: reason_def l full_query_of_def demo_eng demo_agent demo_guardrail
        demo_retrieve demo_answer)
qed

section \<open>Confidence of a response\<close>

lemma calculate_confidence_range:
  "15 / 100 \<le> calculate_confidence s rr f \<and> calculate_confidence s rr f \<le> 95 / 100
   \<and> (\<exists>k::int. calculate_confidence s rr f = of_int k / 100)"
proof -
  have "15 / 100 \<le> calculate_confidence s rr f \<and> calculate_confidence s rr f \<le> 95 / 100"
    unfolding calculate_confidence_def Let_def
    by (rule py_round2_bounds) simp_all
  moreover have "\<exists>k::int. calculate_confidence s rr f = of_int k / 100"
    unfolding calculate_confidence_def Let_def py_round_def by auto
  ultimately show ?thesis by blast
qed

lemma calculate_confidence_spec:
  "0 \<le> s \<Longrightarrow> calculate_confidence s rr f = spec_confidence s rr f"
  by (simp add: calculate_confidence_def spec_confidence_def clamp_def norm_similarity_def
      norm_rerank_def Let_def max_def min_def mult.commute)

lemma semantic_only_nonneg:
  "r \<in> set (semantic_only_search db emb aid k) \<Longrightarrow> 0 \<le> snd r"
  by (auto simp add: semantic_only_search_def split: sum.splits)

lemma fallback_nonneg:
  "r \<in> set (fallback_semantic_search m db q aid k) \<Longrightarrow> 0 \<le> snd r"
  by (auto simp add: fallback_semantic_search_def split: sum.splits dest: semantic_only_nonneg)

lemma search_nonneg:
  assumes "rrf_nonneg db" and r: "r \<in> set (search m db q aid k)"
  shows "0 \<le> snd r"
proof (cases "strip q = []")
  case True
  then show ?thesis using r by (simp add: search_def)
next
  case False
  note nonblank = this
  show ?thesis
  proof (cases "embed_one m q")
    case (Inl e)
    then have "r \<in> set (fallback_semantic_search m db q aid k)"
      using r nonblank by (simp add: search_def)
    then show ?thesis by (rule fallback_nonneg)
  next
    case (Inr emb)
    note emb = this
    show ?thesis
    proof (cases "rpc_hybrid_search db emb q aid k")
      case (Inl e)
      then have "r \<in> set (fallback_semantic_search m db q aid k)"
        using r nonblank emb by (simp add: search_def)
      then show ?thesis by (rule fallback_nonneg)
    next
      case (Inr rows)
      note rows = this
      have rows_ok: "\<forall>row \<in> set rows. 0 \<le> snd row"
        using assms(1) rows unfolding rrf_nonneg_def by blast
      show ?thesis
      proof (cases "rows = []")
        case True
        then have "r \<in> set (semantic_only_search db emb aid k)"
          using r nonblank emb rows by (simp add: search_def)
        then show ?thesis by (rule semantic_only_nonneg)
      next
        case False
        show ?thesis
        proof (cases "chunks_by_ids db (map fst rows)")
          case (Inl e)
          then have "r \<in> set (fallback_semantic_search m db q aid k)"
            using r nonblank emb rows False by (simp add: search_def)
          then show ?thesis by (rule fallback_nonneg)
        next
          case (Inr chunks)
          then show ?thesis using r nonblank emb rows False rows_ok
            by (auto simp add: search_def Let_def split: option.splits)
        qed
      qed
    qed
  qed
qed

lemma retrieve_top_nonneg:
  assumes "rrf_nonneg (eng_search_db eng)"
  shows "0 \<le> first_or_zero (map snd (retrieve eng agent fq))"
proof (cases "retrieve eng agent fq")
  case Nil
  then show ?thesis by (simp add: first_or_zero_def)
next
  case (Cons r rs)
  then have mem: "r \<in> set (retrieve eng agent fq)" by simp
  have "0 \<le> snd r"
  proof (cases "eng_embedding_model eng")
    case None
    then show ?thesis using mem by (simp add: retrieve_def)
  next
    case (Some m)
    then have "r \<in> set (search m (eng_search_db eng) fq (ad_id agent) 20)"
      using mem by (simp add: retrieve_def)
    then show ?thesis using assms search_nonneg by blast
  qed
  then show ?thesis using Cons by (simp add: first_or_zero_def)
qed

text \<open>
  C1. Every response of \<open>reason\<close> to a query rejected by the guardrail has confidence
  0.1; every response to an in-domain query whose retrieval is empty has confidence 0.2;
  and every response to an in-domain query that reaches the confidence computation has
  the confidence the specification's formula gives for the top fusion score, the top
  rerank score and the faithfulness score (the weighted sum of the clamped components,
  floored at 0.75 or capped at 0.45, clamped to \<open>[0.15, 0.95]\<close> and rounded to two
  decimals), which lies in \<open>[0.15, 0.95]\<close> and is a whole number of hundredths. The
  retrieval scores are those of a database whose fusion scores are not negative.
\<close>

theorem reason_confidence:
  assumes nonneg: "rrf_nonneg (eng_search_db eng)"
      and load: "fst (load_agent eng cache name) = Inr agent"
      and res: "fst (reason eng cache name query mm) = Inr r"
  shows
   "(let fq = full_query_of query mm;
         in_dom = fst (check_guardrail (eng_fmt eng) fq (ad_domain_signature agent)
                    (ad_prompt_analysis agent));
         found = retrieve eng agent fq;
         reranked = rerank (eng_cross_encoder eng) fq (map fst found) 5;
         context = build_context (map fst reranked);
         reply = generate_answer (eng_client eng) query context (ad_system_prompt agent) mm;
         faith = score (fst (faithfulness_score (eng_client eng) (eng_py eng) reply context))
     in (\<not> in_dom \<longrightarrow> \<not> resp_in_domain r \<and> resp_confidence r = 1 / 10)
      \<and> (in_dom \<and> found = [] \<longrightarrow> resp_in_domain r \<and> resp_confidence r = 2 / 10)
      \<and> (in_dom \<and> found \<noteq> [] \<longrightarrow>
           resp_in_domain r
           \<and> resp_confidence r =
               spec_confidence (first_or_zero (map snd found)) (first_or_zero (map snd reranked)) faith
           \<and> 15 / 100 \<le> resp_confidence r \<and> resp_confidence r \<le> 95 / 100
           \<and> (\<exists>k::int. resp_confidence r = of_int k / 100)))"
proof -
  define fq where "fq = full_query_of query mm"
  define g where "g = check_guardrail (eng_fmt eng) fq (ad_domain_signature agent) (ad_prompt_analysis agent)"
  define found where "found = retrieve eng agent fq"
  define reranked where "reranked = rerank (eng_cross_encoder eng) fq (map fst found) 5"
  define ctx where "ctx = build_context (map fst reranked)"
  define reply where "reply = generate_answer (eng_client eng) query ctx (ad_system_prompt agent) mm"
  define faith where "faith = score (fst (faithfulness_score (eng_client eng) (eng_py eng) reply ctx))"
  obtain c1 where l: "load_agent eng cache name = (Inr agent, c1)"
    using load by (cases "load_agent eng cache name") auto
  obtain in_dom ds where gd: "g = (in_dom, ds)" by (cases g) auto
  have top: "0 \<le> first_or_zero (map snd found)"
    unfolding found_def using nonneg by (rule retrieve_top_nonneg)
  have out: "\<not> resp_in_domain r \<and> resp_confidence r = 1 / 10" if "\<not> in_dom"
    using that res l gd
    by (auto simp add: reason_def Let_def fq_def g_def create_out_of_domain_response_def)
  have none: "resp_in_domain r \<and> resp_confidence r = 2 / 10" if "in_dom" "found = []"
    using that res l gd
    by (auto simp add: reason_def Let_def fq_def g_def found_def create_no_results_response_def)
  have some: "resp_in_domain r \<and> resp_confidence r =
          calculate_confidence (first_or_zero (map snd found)) (first_or_zero (map snd reranked)) faith"
    if "in_dom" "found \<noteq> []"
  proof -
    have "answer_from_results eng agent query mm fq found = Inr r"
      using that res l gd by (simp add: reason_def Let_def fq_def g_def found_def)
    then show ?thesis
      by (auto simp add: answer_from_results_def Let_def reranked_def ctx_def reply_def faith_def
            split: sum.splits)
  qed
  have all: "(\<not> fst g \<longrightarrow> \<not> resp_in_domain r \<and> resp_confidence r = 1 / 10)
      \<and> (fst g \<and> found = [] \<longrightarrow> resp_in_domain r \<and> resp_confidence r = 2 / 10)
      \<and> (fst g \<and> found \<noteq> [] \<longrightarrow>
           resp_in_domain r
           \<and> resp_confidence r =
               spec_confidence (first_or_zero (map snd found)) (first_or_zero (map snd reranked)) faith
           \<and> 15 / 100 \<le> resp_confidence r \<and> resp_confidence r \<le> 95 / 100
           \<and> (\<exists>k::int. resp_confidence r = of_int k / 100))"
  proof -
    let ?c = "calculate_confidence (first_or_zero (map snd found)) (first_or_zero (map snd reranked)) faith"
    have e: "?c = spec_confidence (first_or_zero (map snd found)) (first_or_zero (map snd reranked)) faith"
      using top by (rule calculate_confidence_spec)
    have b: "15 / 100 \<le> ?c \<and> ?c \<le> 95 / 100 \<and> (\<exists>k::int. ?c = of_int k / 100)"
      by (rule calculate_confidence_range)
    have fg: "fst g = in_dom" using gd by simp
    show ?thesis
      unfolding fg using out none some e b by metis
  qed
  show ?thesis
    using all unfolding Let_def fq_def g_def found_def reranked_def ctx_def reply_def faith_def
    by blast
qed

theorem reason_confidence_witness:
  "resp_in_domain demo_response
   \<and> resp_confidence demo_response = spec_confidence (1 / 61) (1 / 2) 1
   \<and> 15 / 100 \<le> resp_confidence demo_response \<and> resp_confidence demo_response \<le> 95 / 100"
proof -
  have nn: "rrf_nonneg (eng_search_db eng_demo)"
    by (simp add: rrf_nonneg_def eng_demo_def db_demo_def rpc_demo_def)
  show ?thesis
    using reason_confidence [OF nn demo_load demo_reason]
    by (simp add: Let_def full_query_of_def demo_eng demo_agent demo_guardrail demo_retrieve
        demo_rerank demo_generate demo_faithfulness first_or_zero_def)
qed

section \<open>The guardrail on the domain's own name\<close>

lemma bonus_of_domain:
  assumes "pa_domain pa = Some d"
  shows "3 \<le> bonus_of (lower d) pa"
proof -
  have a: "0 \<le> sum_list (map (\<lambda>sub_domain. if contains (lower d) (lower sub_domain) then 2 else (0::rat))
                   (get_or (pa_sub_domains pa) []))"
    by (rule sum_list_map_nonneg) simp
  have b: "0 \<le> sum_list (map (\<lambda>keyword. if contains (lower d) (lower keyword) then 3 / 2 else (0::rat))
                   (get_or (pa_domain_keywords pa) []))"
    by (rule sum_list_map_nonneg) simp
  show ?thesis
    using a b assms by (simp add: bonus_of_def get_or_def contains_self)
qed

text \<open>
  C6. For an agent whose prompt analysis has a non-empty domain, the guardrail on the
  query that is just the domain name has a bonus of at least 1, so its score is
  \<open>min(1.0, base + min(0.5, bonus * 0.1))\<close> floored at 0.2: the score is at least 0.2
  and the query is in the domain.
\<close>

theorem guardrail_domain_query:
  assumes "pa_domain pa = Some d" and "d \<noteq> []"
  shows "1 \<le> bonus_of (lower d) pa
         \<and> snd (check_guardrail py d sg pa) =
             max (min 1 (guardrail_base py d sg + min (1 / 2) (bonus_of (lower d) pa * (1 / 10)))) (2 / 10)
         \<and> 2 / 10 \<le> snd (check_guardrail py d sg pa)
         \<and> fst (check_guardrail py d sg pa)"
proof -
  have b: "3 \<le> bonus_of (lower d) pa" using assms(1) by (rule bonus_of_domain)
  then have b1: "1 \<le> bonus_of (lower d) pa" by simp
  have eq: "snd (check_guardrail py d sg pa) =
             max (min 1 (guardrail_base py d sg + min (1 / 2) (bonus_of (lower d) pa * (1 / 10)))) (2 / 10)"
    using b1 by (simp add: check_guardrail_def Let_def guardrail_base_def)
  have lo: "2 / 10 \<le> snd (check_guardrail py d sg pa)"
    unfolding eq by (rule max.cobounded2)
  have "fst (check_guardrail py d sg pa) = (DOMAIN_SIMILARITY_THRESHOLD \<le> snd (check_guardrail py d sg pa))"
    by (simp add: check_guardrail_def Let_def)
  moreover have "DOMAIN_SIMILARITY_THRESHOLD \<le> snd (check_guardrail py d sg pa)"
    using lo by (simp add: DOMAIN_SIMILARITY_THRESHOLD_def)
  ultimately have "fst (check_guardrail py d sg pa)" by simp
  then show ?thesis using b1 eq lo by blast
qed

theorem guardrail_domain_query_witness:
  "fst (check_guardrail fmt_plain ''cooking'' [''recipe'', ''ingredient''] cooking_analysis)
   \<and> 2 / 10 \<le> snd (check_guardrail fmt_plain ''cooking'' [''recipe'', ''ingredient''] cooking_analysis)"
proof -
  have d: "pa_domain cooking_analysis = Some ''cooking''" by (simp add: cooking_analysis_def)
  have n: "''cooking'' \<noteq> []" by simp
  show ?thesis
    using guardrail_domain_query [OF d n, of fmt_plain "[''recipe'', ''ingredient'']"] by blast
qed

section \<open>Sufficiency of the parsed data\<close>

text \<open>
  C7. \<open>validate_sufficiency\<close> reports the data sufficient exactly when the entries sum
  to at least 20 or the characters to at least 2000, no file has a parse error and no file
  has zero entries. So exactly 20 entries with no error and no empty file are sufficient,
  and 19 entries with fewer than 2000 characters are not.
\<close>

theorem validate_sufficiency_iff:
  "(sufficient (validate_sufficiency parsed_data) \<longleftrightarrow>
      ((20 \<le> sum_list (map entries_of parsed_data)
        \<or> 2000 \<le> sum_list (map characters_of parsed_data))
       \<and> (\<forall>p \<in> set parsed_data. ps_error p = None)
       \<and> (\<forall>p \<in> set parsed_data. entries_of p \<noteq> 0)))
   \<and> (sum_list (map entries_of parsed_data) = 20
        \<and> (\<forall>p \<in> set parsed_data. ps_error p = None)
        \<and> (\<forall>p \<in> set parsed_data. entries_of p \<noteq> 0)
       \<longrightarrow> sufficient (validate_sufficiency parsed_data))
   \<and> (sum_list (map entries_of parsed_data) = 19
        \<and> sum_list (map characters_of parsed_data) < 2000
       \<longrightarrow> \<not> sufficient (validate_sufficiency parsed_data))"
  by (auto simp add: validate_sufficiency_def Let_def MIN_ENTRIES_def MIN_CHARACTERS_def
      filter_empty_conv)

theorem validate_sufficiency_iff_witness:
  "sufficient (validate_sufficiency [csv20]) \<and> \<not> sufficient (validate_sufficiency [txt19])"
  using validate_sufficiency_iff [of "[csv20]"] validate_sufficiency_iff [of "[txt19]"]
  by (simp add: csv20_def txt19_def entries_of_def characters_of_def get_or_def)


section \<open>Citation numbers\<close>

lemma first_seen_snoc:
  "first_seen (xs @ [x]) = (if x \<in> set xs then first_seen xs else first_seen xs @ [x])"
  by (simp add: first_seen_def)

lemma set_first_seen: "set (first_seen xs) = set xs"
  by (simp add: first_seen_def)

lemma distinct_first_seen: "distinct (first_seen xs)"
  by (simp add: first_seen_def)

lemma index_of_append:
  "index_of (ys @ zs) c = (if c \<in> set ys then index_of ys c else length ys + index_of zs c)"
  by (induction ys) auto

lemma map_of_zip_upt:
  "map_of (zip ys [k..<k + length ys]) c =
     (if c \<in> set ys then Some (k + index_of ys c) else None)"
proof (induction ys arbitrary: k)
  case Nil
  then show ?case by simp
next
  case (Cons y ys)
  have u: "[k..<k + length (y # ys)] = k # [Suc k..<Suc k + length ys]"
  proof -
    have "k < k + length (y # ys)" by simp
    then have "[k..<k + length (y # ys)] = k # [Suc k..<k + length (y # ys)]"
      by (rule upt_conv_Cons)
    then show ?thesis by simp
  qed
  show ?case unfolding u using Cons [of "Suc k"] by auto
qed

lemma digit_inj:
  assumes "a < 10" "b < 10" "''0123456789'' ! a = ''0123456789'' ! b"
  shows "a = b"
proof -
  have d: "distinct ''0123456789''" by simp
  have l: "length ''0123456789'' = 10" by simp
  show ?thesis using assms d l nth_eq_iff_index_eq by metis
qed

lemma str_nat_nonempty: "str_nat n \<noteq> []"
  by (subst str_nat.simps) simp

lemma str_nat_inj: "str_nat n = str_nat m \<Longrightarrow> n = m"
proof (induction n arbitrary: m rule: str_nat.induct)
  case (1 n)
  show ?case
  proof (cases "n < 10")
    case True
    note n = this
    show ?thesis
    proof (cases "m < 10")
      case True
      then show ?thesis using n "1.prems" digit_inj by (simp add: str_nat.simps [of n] str_nat.simps [of m])
    next
      case False
      then have "length (str_nat m) \<ge> 2"
        using str_nat_nonempty [of "m div 10"]
        by (subst str_nat.simps) (cases "str_nat (m div 10)"; simp)
      moreover have "length (str_nat n) = 1" using n by (simp add: str_nat.simps [of n])
      ultimately show ?thesis using "1.prems" by simp
    qed
  next
    case False
    note n = this
    show ?thesis
    proof (cases "m < 10")
      case True
      have "length (str_nat n) \<ge> 2"
        using n str_nat_nonempty [of "n div 10"]
        by (subst str_nat.simps) (cases "str_nat (n div 10)"; simp)
      moreover have "length (str_nat m) = 1" using True by (simp add: str_nat.simps [of m])
      ultimately show ?thesis using "1.prems" by simp
    next
      case False
      have e: "str_nat (n div 10) @ [''0123456789'' ! (n mod 10)] =
               str_nat (m div 10) @ [''0123456789'' ! (m mod 10)]"
        using "1.prems" n False by (simp add: str_nat.simps [of n] str_nat.simps [of m])
      then have a: "str_nat (n div 10) = str_nat (m div 10)"
        and b: "''0123456789'' ! (n mod 10) = ''0123456789'' ! (m mod 10)" by simp_all
      have "n div 10 = m div 10" using "1.IH" [OF n a] .
      moreover have "n mod 10 = m mod 10" using digit_inj [OF _ _ b] by simp
      ultimately show ?thesis by (metis div_mult_mod_eq)
    qed
  qed
qed

lemma cite_inj: "cite n = cite m \<Longrightarrow> n = m"
  by (simp add: cite_def str_nat_inj)

lemma number_from_snoc: "number_from k (ys @ [c]) = number_from k ys @ [(c, k + length ys)]"
  by (induction ys arbitrary: k) auto

lemma length_number_from: "length (number_from k ys) = length ys"
  by (induction ys arbitrary: k) auto

lemma map_fst_number_from: "map fst (number_from k ys) = ys"
  by (induction ys arbitrary: k) auto

lemma map_snd_number_from: "map snd (number_from k ys) = [k..<k + length ys]"
proof (induction ys arbitrary: k)
  case Nil
  then show ?case by simp
next
  case (Cons y ys)
  have "k < k + length (y # ys)" by simp
  then have "[k..<k + length (y # ys)] = k # [Suc k..<k + length (y # ys)]"
    by (rule upt_conv_Cons)
  then show ?case using Cons [of "Suc k"] by simp
qed

lemma map_of_number_from:
  "map_of (number_from k ys) c = (if c \<in> set ys then Some (k + index_of ys c) else None)"
  by (induction ys arbitrary: k) auto

lemma loop_inv_step_new:
  assumes inv: "loop_inv used acc" and new: "map_of used cid = None"
  shows "loop_inv (used @ [(cid, length used + 1)])
           (acc @ [\<lparr> sentence_text = s, citation = cite (length used + 1), source_chunk_id = cid,
                     source_preview = p, source_file = f, similarity = sim \<rparr>])"
proof -
  let ?ids = "map source_chunk_id acc"
  let ?firsts = "first_seen ?ids"
  have u: "used = number_from 1 ?firsts"
    and c: "map citation acc = map (\<lambda>c. cite (Suc (index_of ?firsts c))) ?ids"
    using inv by (simp_all add: loop_inv_def Let_def)
  have notin: "cid \<notin> set ?firsts"
    using new unfolding u by (auto simp add: map_of_number_from split: if_splits)
  then have notin': "cid \<notin> set ?ids" by (simp add: set_first_seen)
  have lu: "length used = length ?firsts" unfolding u by (rule length_number_from)
  have fs: "first_seen (?ids @ [cid]) = ?firsts @ [cid]"
    using notin' by (simp add: first_seen_snoc)
  have old: "map (\<lambda>c. cite (Suc (index_of (?firsts @ [cid]) c))) ?ids =
             map (\<lambda>c. cite (Suc (index_of ?firsts c))) ?ids"
    by (rule map_cong) (auto simp add: index_of_append set_first_seen)
  have newi: "index_of (?firsts @ [cid]) cid = length ?firsts"
    using notin by (simp add: index_of_append)
  have g1: "used @ [(cid, length used + 1)] = number_from 1 (?firsts @ [cid])"
    using u lu by (simp add: number_from_snoc)
  have pt: "index_of (?firsts @ [cid]) (source_chunk_id x) = index_of ?firsts (source_chunk_id x)"
    if "x \<in> set acc" for x
    using that by (simp add: index_of_append set_first_seen)
  have g2: "map (\<lambda>c. cite (Suc (index_of (?firsts @ [cid]) c))) (?ids @ [cid]) =
            map citation acc @ [cite (length used + 1)]"
    unfolding c lu by (simp add: pt newi)
  show ?thesis
    unfolding loop_inv_def Let_def
    using g1 g2 by (simp add: fs)
qed

lemma loop_inv_step_old:
  assumes inv: "loop_inv used acc" and old: "map_of used cid = Some n"
  shows "loop_inv used
           (acc @ [\<lparr> sentence_text = s, citation = cite n, source_chunk_id = cid,
                     source_preview = p, source_file = f, similarity = sim \<rparr>])"
proof -
  let ?ids = "map source_chunk_id acc"
  let ?firsts = "first_seen ?ids"
  have u: "used = number_from 1 ?firsts"
    and c: "map citation acc = map (\<lambda>c. cite (Suc (index_of ?firsts c))) ?ids"
    using inv by (simp_all add: loop_inv_def Let_def)
  have "cid \<in> set ?firsts \<and> n = Suc (index_of ?firsts cid)"
    using old unfolding u by (auto simp add: map_of_number_from split: if_splits)
  then have mem: "cid \<in> set ?ids" and n: "n = Suc (index_of ?firsts cid)"
    by (simp_all add: set_first_seen)
  have fs: "first_seen (?ids @ [cid]) = ?firsts"
    using mem by (simp add: first_seen_snoc)
  show ?thesis
    unfolding loop_inv_def Let_def
    using c u n by (simp add: fs)
qed

lemma attribute_loop_inv:
  "loop_inv used acc \<Longrightarrow> attribute_loop model chunks embs ss used acc = (used', acc')
     \<Longrightarrow> loop_inv used' acc'"
proof (induction ss arbitrary: used acc)
  case Nil
  then show ?case by simp
next
  case (Cons s ss)
  show ?case
  proof (cases "length (split_ws s) < 4")
    case True
    then show ?thesis using Cons by simp
  next
    case False
    obtain best sim where b: "find_best_source model s chunks embs = (best, sim)"
      by (cases "find_best_source model s chunks embs") auto
    show ?thesis
    proof (cases "map_of used (get_id best)")
      case None
      have "loop_inv (used @ [(get_id best, length used + 1)])
           (acc @ [\<lparr> sentence_text = s, citation = cite (length used + 1),
                     source_chunk_id = get_id best,
                     source_preview = take 150 (get_content best), source_file = get_source best,
                     similarity = sim \<rparr>])"
        using Cons.prems(1) None by (rule loop_inv_step_new)
      then show ?thesis
        using Cons.IH Cons.prems(2) False b None by (simp add: Let_def)
    next
      case (Some n)
      have "loop_inv used
           (acc @ [\<lparr> sentence_text = s, citation = cite n,
                     source_chunk_id = get_id best,
                     source_preview = take 150 (get_content best), source_file = get_source best,
                     similarity = sim \<rparr>])"
        using Cons.prems(1) Some by (rule loop_inv_step_old)
      then show ?thesis
        using Cons.IH Cons.prems(2) False b Some by (simp add: Let_def)
    qed
  qed
qed

lemma loop_inv_init: "loop_inv [] []"
  by (simp add: loop_inv_def first_seen_def)

lemma salad_eval:
  "attribute (Some initial_embedder) salad_answer [ch7, ch12] None = Inr salad_attributed"
  by code_simp

lemma source_entries_unsorted:
  assumes "\<forall>p \<in> set used. fst p \<in> source_chunk_id ` set acc"
  shows "map src_citation (concat (map (\<lambda>(cid, num).
                    case find (\<lambda>a. source_chunk_id a = cid) acc of
                      None \<Rightarrow> []
                    | Some attr \<Rightarrow>
                        [\<lparr> src_citation = cite num,
                           src_chunk_id = cid,
                           src_source = source_file attr,
                           src_preview = source_preview attr,
                           src_similarity = py_round (similarity attr) 3 \<rparr>]) used))
         = map (\<lambda>p. cite (snd p)) used
       \<and> map src_chunk_id (concat (map (\<lambda>(cid, num).
                    case find (\<lambda>a. source_chunk_id a = cid) acc of
                      None \<Rightarrow> []
                    | Some attr \<Rightarrow>
                        [\<lparr> src_citation = cite num,
                           src_chunk_id = cid,
                           src_source = source_file attr,
                           src_preview = source_preview attr,
                           src_similarity = py_round (similarity attr) 3 \<rparr>]) used))
         = map fst used"
  using assms
proof (induction used)
  case Nil
  then show ?case by simp
next
  case (Cons p used)
  obtain cid num where p: "p = (cid, num)" by (cases p) auto
  have "cid \<in> source_chunk_id ` set acc" using Cons.prems p by simp
  then have "find (\<lambda>a. source_chunk_id a = cid) acc \<noteq> None"
    by (auto simp add: find_None_iff)
  then obtain attr where f: "find (\<lambda>a. source_chunk_id a = cid) acc = Some attr" by auto
  show ?case using Cons p f by simp
qed

lemma source_entries_inv:
  assumes "loop_inv used acc"
  shows "map src_citation (source_entries used acc) =
           map cite [1..<1 + length (first_seen (map source_chunk_id acc))]
       \<and> map src_chunk_id (source_entries used acc) = first_seen (map source_chunk_id acc)"
proof -
  let ?firsts = "first_seen (map source_chunk_id acc)"
  have u: "used = number_from 1 ?firsts" using assms by (simp add: loop_inv_def Let_def)
  have sn: "map snd used = [1..<1 + length ?firsts]" unfolding u by (rule map_snd_number_from)
  have fs: "map fst used = ?firsts" unfolding u by (rule map_fst_number_from)
  have "sorted (map snd used)" unfolding sn by (rule sorted_upt)
  then have so: "sort_key snd used = used" by (rule sort_key_id_if_sorted)
  have mem: "\<forall>p \<in> set used. fst p \<in> source_chunk_id ` set acc"
  proof
    fix p assume "p \<in> set used"
    then have "fst p \<in> set (map fst used)" by simp
    then have "fst p \<in> set (map source_chunk_id acc)" unfolding fs by (simp add: set_first_seen)
    then show "fst p \<in> source_chunk_id ` set acc" by simp
  qed
  have m: "map (\<lambda>p. cite (snd p)) used = map cite (map snd used)" by simp
  show ?thesis
    unfolding source_entries_def so
    using source_entries_unsorted [OF mem] unfolding m sn fs by blast
qed

lemma index_of_eq:
  "x \<in> set ys \<Longrightarrow> index_of ys x = index_of ys y \<Longrightarrow> x = y"
  by (induction ys) (auto split: if_splits)

lemma loop_inv_citation:
  assumes "loop_inv used acc" and "a \<in> set acc"
  shows "citation a = cite (Suc (index_of (first_seen (map source_chunk_id acc)) (source_chunk_id a)))"
proof -
  have "map citation acc =
        map (\<lambda>a. cite (Suc (index_of (first_seen (map source_chunk_id acc)) (source_chunk_id a)))) acc"
    using assms(1) by (simp add: loop_inv_def Let_def comp_def)
  then show ?thesis using assms(2) by (simp only: map_eq_conv)
qed

lemma loop_inv_same_citation:
  assumes inv: "loop_inv used acc" and a: "a \<in> set acc" and b: "b \<in> set acc"
  shows "citation a = citation b \<longleftrightarrow> source_chunk_id a = source_chunk_id b"
proof
  assume "citation a = citation b"
  then have "cite (Suc (index_of (first_seen (map source_chunk_id acc)) (source_chunk_id a))) =
             cite (Suc (index_of (first_seen (map source_chunk_id acc)) (source_chunk_id b)))"
    using loop_inv_citation [OF inv a] loop_inv_citation [OF inv b] by simp
  then have "index_of (first_seen (map source_chunk_id acc)) (source_chunk_id a) =
             index_of (first_seen (map source_chunk_id acc)) (source_chunk_id b)"
    using cite_inj by blast
  moreover have "source_chunk_id a \<in> set (first_seen (map source_chunk_id acc))"
    using a by (simp add: set_first_seen)
  ultimately show "source_chunk_id a = source_chunk_id b" by (rule index_of_eq [rotated])
next
  assume "source_chunk_id a = source_chunk_id b"
  then show "citation a = citation b"
    using loop_inv_citation [OF inv a] loop_inv_citation [OF inv b] by simp
qed

lemma attribute_result:
  assumes "answer \<noteq> []" and "chunks \<noteq> []"
      and "attribute model answer chunks chunk_embeddings = Inr r"
  shows "\<exists>used. loop_inv used (sentences r) \<and> sources r = source_entries used (sentences r)"
proof -
  obtain embs used acc where
      l: "attribute_loop model chunks embs (split_sentences answer) [] [] = (used, acc)"
    and r: "r = \<lparr> answer_with_citations = build_cited_answer answer acc, sentences = acc,
                  sources = source_entries used acc \<rparr>"
    using assms
    by (auto simp add: attribute_def split: sum.splits prod.splits)
  have "loop_inv used acc" using loop_inv_init l by (rule attribute_loop_inv)
  then show ?thesis using r by auto
qed

text \<open>
  C3. For a non-empty answer and a non-empty chunk list, the citation of every attributed
  sentence of the \<open>AttributedAnswer\<close> that \<open>attribute\<close> returns is \<open>[N]\<close>
  with \<open>N\<close> one more than the position of its chunk among the chunks first seen, so
  the numbers are \<open>1..K\<close> in order of first appearance; the sources list carries the
  citations \<open>[1]\<close> to \<open>[K]\<close> in order, each with the chunk first seen at that
  rank, all distinct; and two attributed sentences have the same citation exactly when
  they have the same chunk.
\<close>

theorem attribute_citations:
  assumes "answer \<noteq> []" and "chunks \<noteq> []"
      and "attribute model answer chunks chunk_embeddings = Inr r"
  shows "(let ids = map source_chunk_id (sentences r); firsts = first_seen ids
          in map citation (sentences r) = map (\<lambda>c. cite (Suc (index_of firsts c))) ids
           \<and> map src_citation (sources r) = map cite [1..<1 + length firsts]
           \<and> map src_chunk_id (sources r) = firsts
           \<and> distinct firsts \<and> set firsts = set ids
           \<and> (\<forall>a \<in> set (sentences r). \<forall>b \<in> set (sentences r).
                 citation a = citation b \<longleftrightarrow> source_chunk_id a = source_chunk_id b))"
proof -
  obtain used where inv: "loop_inv used (sentences r)"
    and src: "sources r = source_entries used (sentences r)"
    using attribute_result [OF assms] by blast
  have c: "map citation (sentences r) =
           map (\<lambda>c. cite (Suc (index_of (first_seen (map source_chunk_id (sentences r))) c)))
             (map source_chunk_id (sentences r))"
    using inv by (simp add: loop_inv_def Let_def)
  have s: "map src_citation (sources r) =
             map cite [1..<1 + length (first_seen (map source_chunk_id (sentences r)))]
         \<and> map src_chunk_id (sources r) = first_seen (map source_chunk_id (sentences r))"
    unfolding src using inv by (rule source_entries_inv)
  have e: "\<forall>a \<in> set (sentences r). \<forall>b \<in> set (sentences r).
                 citation a = citation b \<longleftrightarrow> source_chunk_id a = source_chunk_id b"
    using loop_inv_same_citation [OF inv] by blast
  show ?thesis
    unfolding Let_def using c s e distinct_first_seen [of "map source_chunk_id (sentences r)"]
      set_first_seen [of "map source_chunk_id (sentences r)"]
    by blast
qed

theorem attribute_citations_witness:
  "map citation (sentences salad_attributed) = [''[1]'', ''[2]'', ''[1]'']
   \<and> map src_citation (sources salad_attributed) = [''[1]'', ''[2]'']
   \<and> map src_chunk_id (sources salad_attributed) = [7, 12]"
proof -
  have a: "salad_answer \<noteq> []" by (simp add: salad_answer_def)
  have c: "[ch7, ch12] \<noteq> []" by simp
  have ids: "map source_chunk_id (sentences salad_attributed) = [7, 12, 7]"
    by (simp add: salad_attributed_def)
  have fs: "first_seen [7, 12, 7 :: int] = [7, 12]" by (simp add: first_seen_def)
  show ?thesis
    using attribute_citations [OF a c salad_eval]
    by (simp add: Let_def ids fs cite_def str_nat.simps)
qed

section \<open>Insertion of the citations\<close>

lemma startswith_append: "startswith (old @ q) old"
  by (induction old) auto

lemma startswith_length: "startswith s old \<Longrightarrow> length old \<le> length s"
  by (induction s old rule: startswith.induct) auto

lemma contains_append: "contains (p @ t @ q) t"
proof (induction p)
  case Nil
  show ?case
  proof (cases "t @ q")
    case Nil
    then show ?thesis by simp
  next
    case (Cons c cs)
    have "startswith (c # cs) t" using startswith_append [of t q] Cons by simp
    then show ?thesis using Cons by simp
  qed
next
  case (Cons c p)
  then show ?case by simp
qed

lemma replace_first_at:
  assumes "\<forall>i < length p. \<not> startswith (drop i (p @ old @ q)) old"
  shows "replace_first old new (p @ old @ q) = p @ new @ q"
  using assms
proof (induction p)
  case Nil
  show ?case
  proof (cases "old @ q")
    case Nil
    then show ?thesis by simp
  next
    case (Cons c cs)
    have "startswith (c # cs) old" using startswith_append [of old q] Cons by simp
    moreover have "drop (length old) (c # cs) = q" using Cons [symmetric] by simp
    ultimately show ?thesis using Cons by simp
  qed
next
  case (Cons c p)
  have "\<not> startswith (drop 0 ((c # p) @ old @ q)) old" using Cons.prems by blast
  then have n: "\<not> startswith (c # (p @ old @ q)) old" by simp
  have "\<forall>i < length p. \<not> startswith (drop i (p @ old @ q)) old"
  proof (intro allI impI)
    fix i assume "i < length p"
    then have "Suc i < length (c # p)" by simp
    then have "\<not> startswith (drop (Suc i) ((c # p) @ old @ q)) old" using Cons.prems by blast
    then show "\<not> startswith (drop i (p @ old @ q)) old" by simp
  qed
  then have "replace_first old new (p @ old @ q) = p @ new @ q" by (rule Cons.IH)
  then show ?case using n by simp
qed

lemma replace_first_length:
  "contains s old \<Longrightarrow> length (replace_first old new s) + length old = length s + length new"
proof (induction s)
  case Nil
  then show ?case by simp
next
  case (Cons c cs)
  show ?case
  proof (cases "startswith (c # cs) old")
    case True
    then have "length old \<le> length (c # cs)" by (rule startswith_length)
    then show ?thesis using True by simp
  next
    case False
    then have "contains cs old" using Cons.prems by simp
    then show ?thesis using Cons.IH False by simp
  qed
qed

lemma insert_citation_length:
  "length (insert_citation a s) \<le> length s + 1 + length (citation a)"
proof (cases "contains s (sentence_text a)")
  case True
  have "length (replace_first (sentence_text a) (sentence_text a @ '' '' @ citation a) s)
          + length (sentence_text a)
        = length s + length (sentence_text a @ '' '' @ citation a)"
    using True by (rule replace_first_length)
  then show ?thesis using True by (simp add: insert_citation_def)
next
  case False
  then show ?thesis by (simp add: insert_citation_def)
qed

lemma foldl_insert_length:
  "length (foldl (\<lambda>r a. insert_citation a r) s as)
     \<le> length s + sum_list (map (\<lambda>a. 1 + length (citation a)) as)"
proof (induction as arbitrary: s)
  case Nil
  then show ?case by simp
next
  case (Cons a as)
  have "length (foldl (\<lambda>r a. insert_citation a r) (insert_citation a s) as)
        \<le> length (insert_citation a s) + sum_list (map (\<lambda>a. 1 + length (citation a)) as)"
    by (rule Cons.IH)
  then show ?case using insert_citation_length [of a s] by simp
qed

lemma build_cited_answer_length:
  "length (build_cited_answer answer attributed)
     \<le> length answer + sum_list (map (\<lambda>a. 1 + length (citation a)) attributed)"
proof -
  have "sum_list (map (\<lambda>a. 1 + length (citation a)) (rev attributed)) =
        sum_list (map (\<lambda>a. 1 + length (citation a)) attributed)"
    by (simp add: rev_map [symmetric])
  then show ?thesis
    using foldl_insert_length [of answer "rev attributed"] by (simp add: build_cited_answer_def)
qed

lemma attribute_unattributed:
  assumes "attribute model answer chunks embs = Inr r" and "sentences r = []"
  shows "answer_with_citations r = answer"
  using assms
  by (auto simp add: attribute_def build_cited_answer_def split: if_splits sum.splits prod.splits)

text \<open>
  C4, as amended. \<open>_build_cited_answer\<close> inserts a citation after the first occurrence
  of its sentence only: when the sentence occurs in the text, the leftmost occurrence is
  followed by a space and the citation and the rest is unchanged; when it does not occur,
  the text is unchanged; so the cited answer is longer than the answer by at most one
  citation per attributed sentence. A second application of \<open>attribute\<close> gives the
  same result when the first attributed no sentence.
\<close>

theorem citation_first_occurrence:
  "(result = p @ sentence_text attr @ q
      \<and> (\<forall>i < length p. \<not> startswith (drop i result) (sentence_text attr))
     \<longrightarrow> insert_citation attr result = p @ sentence_text attr @ '' '' @ citation attr @ q)
   \<and> (\<not> contains result (sentence_text attr) \<longrightarrow> insert_citation attr result = result)
   \<and> length (build_cited_answer answer attributed)
        \<le> length answer + sum_list (map (\<lambda>a. 1 + length (citation a)) attributed)
   \<and> (attribute model answer chunks embs = Inr r \<and> sentences r = []
        \<longrightarrow> answer_with_citations r = answer
            \<and> attribute model (answer_with_citations r) chunks embs = Inr r)"
proof -
  have a: "insert_citation attr result = p @ sentence_text attr @ '' '' @ citation attr @ q"
    if "result = p @ sentence_text attr @ q"
       "\<forall>i < length p. \<not> startswith (drop i result) (sentence_text attr)"
  proof -
    have "contains result (sentence_text attr)" unfolding that(1) by (rule contains_append)
    moreover have "replace_first (sentence_text attr) (sentence_text attr @ '' '' @ citation attr)
                     (p @ sentence_text attr @ q)
                   = p @ (sentence_text attr @ '' '' @ citation attr) @ q"
      using that(2) unfolding that(1) by (rule replace_first_at)
    ultimately show ?thesis unfolding insert_citation_def using that(1) by simp
  qed
  have b: "insert_citation attr result = result" if "\<not> contains result (sentence_text attr)"
    using that by (simp add: insert_citation_def)
  have d: "answer_with_citations r = answer
            \<and> attribute model (answer_with_citations r) chunks embs = Inr r"
    if "attribute model answer chunks embs = Inr r" "sentences r = []"
    using attribute_unattributed [OF that] that(1) by simp
  show ?thesis using a b d build_cited_answer_length by blast
qed

text \<open>
  The claim as stated fails: with no embedding model every sentence of four words or more
  is attributed to the first chunk, and the cited answer of \<open>Romaine is the base.\<close>
  gets a second citation when \<open>attribute\<close> is applied to it again.
\<close>

theorem citation_idempotence_counterexample:
  "answer_with_citations (projr (attribute no_embedder ''Romaine is the base.'' [ch7] None)) =
     ''Romaine is the base. [1]''
   \<and> answer_with_citations (projr (attribute no_embedder ''Romaine is the base. [1]'' [ch7] None)) =
     ''Romaine is the base. [1] [1]''
   \<and> answer_with_citations (projr (attribute no_embedder
         (answer_with_citations (projr (attribute no_embedder ''Romaine is the base.'' [ch7] None)))
         [ch7] None))
       \<noteq> answer_with_citations (projr (attribute no_embedder ''Romaine is the base.'' [ch7] None))"
  by code_simp

lemma greeting_eval: "attribute no_embedder ''Hello there.'' [ch7] None = Inr greeting_only"
  by code_simp

theorem citation_first_occurrence_witness:
  "insert_citation romaine_attr ''Romaine is the base. Romaine is the base.'' =
     ''Romaine is the base. [1] Romaine is the base.''
   \<and> insert_citation romaine_attr ''Croutons give crunch.'' = ''Croutons give crunch.''
   \<and> attribute no_embedder (answer_with_citations greeting_only) [ch7] None = Inr greeting_only"
proof -
  have r: "''Romaine is the base. Romaine is the base.'' =
           [] @ sentence_text romaine_attr @ '' Romaine is the base.''"
    by (simp add: romaine_attr_def)
  have n: "\<not> contains ''Croutons give crunch.'' (sentence_text romaine_attr)"
    by (simp add: romaine_attr_def)
  have s: "sentences greeting_only = []" by (simp add: greeting_only_def)
  have h: "\<forall>i < length ([] :: string).
             \<not> startswith (drop i ''Romaine is the base. Romaine is the base.'') (sentence_text romaine_attr)"
    by simp
  have 1: "insert_citation romaine_attr ''Romaine is the base. Romaine is the base.'' =
           [] @ sentence_text romaine_attr @ '' '' @ citation romaine_attr @ '' Romaine is the base.''"
    using citation_first_occurrence
      [of "''Romaine is the base. Romaine is the base.''" "[]" romaine_attr "'' Romaine is the base.''"]
      r h by blast
  have 2: "insert_citation romaine_attr ''Croutons give crunch.'' = ''Croutons give crunch.''"
    using citation_first_occurrence [where result = "''Croutons give crunch.''" and attr = romaine_attr]
      n by blast
  have 3: "attribute no_embedder (answer_with_citations greeting_only) [ch7] None = Inr greeting_only"
    using citation_first_occurrence
      [where model = no_embedder and answer = "''Hello there.''" and chunks = "[ch7]"
         and embs = None and r = greeting_only]
      greeting_eval s by blast
  show ?thesis using 1 2 3 by (simp add: romaine_attr_def)
qed

section \<open>Reranking without the cross-encoder\<close>

text \<open>
  C5, as amended. When the cross-encoder is unavailable, \<open>rerank\<close> on a non-empty
  candidate list and a count \<open>top_k \<ge> 0\<close> returns the first \<open>top_k\<close> candidates in
  their input order, each with the placeholder score 0.5; the confidence computation
  normalises that score like any other rerank score, to \<open>(0.5 + 10) / 20 = 0.525\<close>.
\<close>

theorem rerank_unavailable:
  assumes "chunks \<noteq> []" and "0 \<le> top_k"
  shows "rerank None query chunks top_k = map (\<lambda>chunk. (chunk, 1 / 2)) (take (nat top_k) chunks)
         \<and> (\<forall>cs \<in> set (rerank None query chunks top_k). norm_rerank (snd cs) = 21 / 40)
         \<and> (1 \<le> top_k \<longrightarrow>
              norm_rerank (first_or_zero (map snd (rerank None query chunks top_k))) = 21 / 40)"
proof -
  have r: "rerank None query chunks top_k = map (\<lambda>chunk. (chunk, 1 / 2)) (take (nat top_k) chunks)"
    using assms by (simp add: rerank_def placeholder_scores_def py_take_def)
  have n: "norm_rerank (1 / 2) = 21 / 40" by (simp add: norm_rerank_def)
  have f: "first_or_zero (map snd (rerank None query chunks top_k)) = 1 / 2" if "1 \<le> top_k"
  proof -
    obtain c cs where c: "chunks = c # cs" using assms(1) by (cases chunks) auto
    have "0 < nat top_k" using that by simp
    then obtain k where k: "nat top_k = Suc k" by (cases "nat top_k") auto
    have "rerank None query chunks top_k = (c, 1 / 2) # map (\<lambda>chunk. (chunk, 1 / 2)) (take k cs)"
      using r c k by simp
    then show ?thesis by (simp add: first_or_zero_def)
  qed
  have a: "\<forall>cs \<in> set (rerank None query chunks top_k). norm_rerank (snd cs) = 21 / 40"
    unfolding r using n by auto
  have t: "1 \<le> top_k \<longrightarrow>
              norm_rerank (first_or_zero (map snd (rerank None query chunks top_k))) = 21 / 40"
  proof
    assume "1 \<le> top_k"
    then have "first_or_zero (map snd (rerank None query chunks top_k)) = 1 / 2" by (rule f)
    then show "norm_rerank (first_or_zero (map snd (rerank None query chunks top_k))) = 21 / 40"
      by (simp only: n)
  qed
  show ?thesis using r a t by blast
qed

theorem rerank_unavailable_witness:
  "rerank None ''cooking'' [ch7, ch12] 1 = [(ch7, 1 / 2)]
   \<and> norm_rerank (first_or_zero (map snd (rerank None ''cooking'' [ch7, ch12] 1))) = 21 / 40"
proof -
  have c: "[ch7, ch12] \<noteq> []" by simp
  have k: "(0::int) \<le> 1" by simp
  have o: "(1::int) \<le> 1" by simp
  have a: "rerank None ''cooking'' [ch7, ch12] 1 =
           map (\<lambda>chunk. (chunk, 1 / 2)) (take (nat 1) [ch7, ch12])"
    and b: "norm_rerank (first_or_zero (map snd (rerank None ''cooking'' [ch7, ch12] 1))) = 21 / 40"
    using rerank_unavailable [OF c k, of "''cooking''"] o by blast+
  show ?thesis using a b by simp
qed

text \<open>
  The claim as stated fails: the normalised rerank component of the placeholder is not 0.5.
\<close>

theorem rerank_placeholder_counterexample:
  "snd (hd (rerank None ''cooking'' [ch7] 5)) = 1 / 2
   \<and> norm_rerank (snd (hd (rerank None ''cooking'' [ch7] 5))) \<noteq> 1 / 2"
  by (simp add: rerank_def placeholder_scores_def py_take_def norm_rerank_def)

end
